theory Spec2Isabelle
  imports Main "HOL-Library.Word" "HOL-Library.Signed_Division"
begin

unbundle bit_operations_syntax

section \<open>Machine types and failures\<close>

text \<open>
  \<open>pow.cpp\<close> works on three kinds of numbers: 32-bit packed targets (\<open>uint32_t\<close>),
  256-bit unsigned magnitudes (\<open>arith_uint256\<close>) and signed 64-bit quantities
  (\<open>int64_t\<close>: times, spacings, the half-life, the ASERT exponent).  The unsigned ones are
  machine words, whose arithmetic wraps.  The signed ones are mathematical integers together
  with the range test \<open>in_int64\<close>: signed overflow and division by zero are undefined in C++,
  so the model reports them as failures instead of inventing a value.  A failed \<open>assert\<close>
  aborts the process; each assertion of the source has its own failure value.
\<close>

type_synonym uint32 = "32 word"
type_synonym uint64 = "64 word"

text \<open>
  Modelled from the spec: the type \<open>arith_uint256\<close> and its operators
  (\<open>arith_uint256.h\<close> is not among the sources at hand).  It is a 256-bit unsigned
  magnitude: products and left shifts keep the low 256 bits, right shifts and quotients round
  down, a shift moves the magnitude by its whole shift count (by 256 bits or more it leaves 0),
  and the comparisons are those of unsigned numbers.
\<close>

type_synonym arith_uint256 = "256 word"

datatype failure =
    NullIndex
  | AssertAnchorHeight
  | AssertPrevAboveAnchor
  | AssertPrevHasParent
  | AssertRefTarget
  | AssertPowLimitHeadroom
  | AssertHeightDiff
  | AssertExponentRange
  | AssertDecomposition
  | SignedOverflow
  | DivisionByZero

definition in_int64 :: "int \<Rightarrow> bool" where
  "in_int64 x \<longleftrightarrow> - (2 ^ 63) \<le> x \<and> x < 2 ^ 63"

section \<open>The ASERT calculator\<close>

text \<open>
  The fixed-point factor \<open>65536 * 2 ^ (frac / 65536)\<close> of lines 129-134: the cubic polynomial
  is evaluated in unsigned 64-bit arithmetic and the sum is narrowed to \<open>uint32_t\<close>.
\<close>

definition ASERT_factor :: "16 word \<Rightarrow> uint32" where
  "ASERT_factor frac =
     ucast (65536 + drop_bit 48
        (195766423245049 * ucast frac
         + 971821376 * ucast frac * ucast frac
         + 5127 * ucast frac * ucast frac * ucast frac
         + push_bit 47 1 :: uint64))"

text \<open>
  Lines 138-160 of \<open>CalculateASERT\<close>: the product is shifted by \<open>shifts - 16\<close> bits, to
  the right when that is not positive and to the left otherwise, where a left shift that
  loses high bits (shifting back does not give the product again) yields the ceiling; then 0
  becomes 1 and a value above the ceiling becomes the ceiling.
\<close>

definition ASERT_apply_shifts :: "arith_uint256 \<Rightarrow> int \<Rightarrow> arith_uint256 \<Rightarrow> arith_uint256" where
  "ASERT_apply_shifts nextTarget shifts powLimit =
    (let nextTarget =
           (if shifts \<le> 0 then drop_bit (nat (- shifts)) nextTarget
            else
              let nextTargetShifted = push_bit (nat shifts) nextTarget
              in if drop_bit (nat shifts) nextTargetShifted \<noteq> nextTarget then powLimit
                 else nextTargetShifted)
     in if nextTarget = 0 then 1
        else if nextTarget > powLimit then powLimit
        else nextTarget)"

text \<open>
  \<open>CalculateASERT\<close> (lines 81-164).  The assertions come first, in the order of the source.
  The product and the difference inside the assertion of line 105 are signed 64-bit
  operations; after that assertion the multiplication by 65536 stays below \<open>2 ^ 63\<close>.
  \<open>/\<close> on \<open>int64_t\<close> truncates towards zero (\<open>sdiv\<close>), \<open>>> 16\<close> on \<open>int64_t\<close> is the
  arithmetic shift (\<open>div 65536\<close>, rounding down), and \<open>uint16_t(exponent)\<close> keeps the low
  16 bits.
\<close>

definition ASERT_exponent :: "int \<Rightarrow> int \<Rightarrow> int \<Rightarrow> int \<Rightarrow> int" where
  "ASERT_exponent nPowTargetSpacing nTimeDiff nHeightDiff nHalfLife =
     ((nTimeDiff - nPowTargetSpacing * nHeightDiff) * 65536) sdiv nHalfLife"

definition CalculateASERT ::
  "arith_uint256 \<Rightarrow> int \<Rightarrow> int \<Rightarrow> int \<Rightarrow> arith_uint256 \<Rightarrow> int \<Rightarrow> failure + arith_uint256" where
  "CalculateASERT refTarget nPowTargetSpacing nTimeDiff nHeightDiff powLimit nHalfLife =
    (if \<not> (refTarget > 0 \<and> refTarget \<le> powLimit) then Inl AssertRefTarget
     else if drop_bit 224 powLimit \<noteq> 0 then Inl AssertPowLimitHeadroom
     else if \<not> nHeightDiff > 0 then Inl AssertHeightDiff
     else if \<not> in_int64 (nPowTargetSpacing * nHeightDiff)
            \<or> \<not> in_int64 (nTimeDiff - nPowTargetSpacing * nHeightDiff) then Inl SignedOverflow
     else if \<not> \<bar>nTimeDiff - nPowTargetSpacing * nHeightDiff\<bar> < 2 ^ 47 then Inl AssertExponentRange
     else if nHalfLife = 0 then Inl DivisionByZero
     else
       let exponent = ASERT_exponent nPowTargetSpacing nTimeDiff nHeightDiff nHalfLife;
           shifts = exponent div 65536;
           frac = (word_of_int exponent :: 16 word)
       in if exponent \<noteq> shifts * 65536 + uint frac then Inl AssertDecomposition
          else
            let factor = ASERT_factor frac;
                nextTarget = refTarget * ucast factor
            in Inr (ASERT_apply_shifts nextTarget (shifts - 16) powLimit))"

section \<open>The ASERT target in unbounded arithmetic\<close>

text \<open>
  The value that \<open>CalculateASERT\<close> approximates, written on natural numbers that do not
  wrap: the polynomial factor, the scaling of a number by a power of two with a signed
  exponent (rounding down), the scaled product \<open>ref * factor * 2 ^ (shifts - 16)\<close>, and its
  clamping into the interval from 1 to the ceiling.  The machine computation is compared with
  these below.
\<close>

definition factor_poly :: "nat \<Rightarrow> nat" where
  "factor_poly n = 195766423245049 * n + 971821376 * n * n + 5127 * n * n * n + 2 ^ 47"

definition factor_nat :: "nat \<Rightarrow> nat" where
  "factor_nat n = 65536 + factor_poly n div 2 ^ 48"

definition scale_pow2 :: "nat \<Rightarrow> int \<Rightarrow> nat" where
  "scale_pow2 x s = (if s \<le> 0 then x div 2 ^ nat (- s) else x * 2 ^ nat s)"

definition ASERT_unbounded :: "nat \<Rightarrow> int \<Rightarrow> nat" where
  "ASERT_unbounded ref e =
     scale_pow2 (ref * factor_nat (nat (e mod 65536))) (e div 65536 - 16)"

definition ASERT_target :: "nat \<Rightarrow> int \<Rightarrow> nat \<Rightarrow> nat" where
  "ASERT_target ref e limit = max 1 (min limit (ASERT_unbounded ref e))"

section \<open>Packed targets\<close>

text \<open>
  Modelled from the spec: \<open>arith_uint256::bits\<close>, \<open>SetCompact\<close> and \<open>GetCompact\<close>
  (\<open>arith_uint256.h\<close> and \<open>arith_uint256.cpp\<close> are not among the sources at hand).  The
  format is the one of the external-interfaces section: the top byte of the 32-bit value is the
  exponent, the number of significant bytes; the low three bytes are the mantissa; bit
  \<open>0x00800000\<close> is the sign; the value is the mantissa times \<open>256 ^ (exponent - 3)\<close> when
  the exponent is at least 3 and the mantissa shifted right otherwise.  Decoding reports
  "negative" for a set sign bit on a non-zero mantissa and "overflow" when the magnitude does
  not fit 256 bits.  Encoding takes the number of significant bytes as exponent and the top
  three of them as mantissa, moving the mantissa one byte down when its sign bit would be set.
\<close>

fun bit_length :: "nat \<Rightarrow> nat" where
  "bit_length n = (if n = 0 then 0 else Suc (bit_length (n div 2)))"

declare bit_length.simps [simp del]

definition bits :: "arith_uint256 \<Rightarrow> nat" where
  "bits x = bit_length (unat x)"

definition SetCompact :: "uint32 \<Rightarrow> arith_uint256 \<times> bool \<times> bool" where
  "SetCompact nCompact =
    (let nSize = unat (drop_bit 24 nCompact);
         nWord = nCompact AND 0x007fffff;
         nWord = (if nSize \<le> 3 then drop_bit (8 * (3 - nSize)) nWord else nWord);
         target = (if nSize \<le> 3 then ucast nWord else push_bit (8 * (nSize - 3)) (ucast nWord));
         fNegative = (nWord \<noteq> 0 \<and> nCompact AND 0x00800000 \<noteq> 0);
         fOverflow = (nWord \<noteq> 0 \<and>
                       (nSize > 34 \<or> (nWord > 0xff \<and> nSize > 33) \<or> (nWord > 0xffff \<and> nSize > 32)))
     in (target, fNegative, fOverflow))"

definition GetCompact :: "arith_uint256 \<Rightarrow> uint32" where
  "GetCompact x =
    (let nSize = (bits x + 7) div 8;
         nCompact = (if nSize \<le> 3 then push_bit (8 * (3 - nSize)) (ucast x)
                     else ucast (drop_bit (8 * (nSize - 3)) x));
         carry = (nCompact AND 0x00800000 \<noteq> 0);
         nCompact = (if carry then drop_bit 8 nCompact else nCompact);
         nSize = (if carry then nSize + 1 else nSize)
     in nCompact OR push_bit 24 (word_of_nat nSize))"

text \<open>
  Modelled from the spec: the arithmetic of \<open>arith_uint256\<close> with a signed 64-bit operand
  (\<open>bnNew *= nActualTimespan\<close>, \<open>bnNew /= params.nPowTargetTimespan\<close>).  The operand enters
  as the unsigned magnitude of its 64 bits, the product wraps at 256 bits, and a division by
  zero raises.
\<close>

definition of_int64 :: "int \<Rightarrow> arith_uint256" where
  "of_int64 n = ucast (word_of_int n :: uint64)"

section \<open>Consensus parameters, block index and header\<close>

text \<open>
  Modelled from the spec: the declarations of \<open>Consensus::Params\<close>, the anchor record,
  \<open>CBlockIndex\<close> and \<open>CBlockHeader\<close> (their headers are not among the sources at hand); the
  fields are the ones \<open>pow.cpp\<close> reads.  \<open>DifficultyAdjustmentInterval\<close> is a method of the
  parameters whose body is elsewhere, so its value is a field here.  A block index node is
  given with its ancestors: a chain is the list that starts at the node and follows \<open>pprev\<close>,
  and the null pointer is the empty list.  Heights are C \<open>int\<close>s; the only arithmetic on
  them is the difference of two positive heights and its decrements.
\<close>

record ASERTAnchor =
  anchor_nHeight :: int
  nBitsLegacy :: uint32
  nBitsAuxPow :: uint32
  nBlockTime :: int

record Params =
  powLimit :: arith_uint256
  nPowTargetSpacingLegacy :: int
  nPowTargetSpacingAuxPow :: int
  nPowTargetTimespan :: int
  DifficultyAdjustmentInterval :: int
  nASERTHalfLife :: int
  fPowNoRetargeting :: bool
  fPowAllowMinDifficultyBlocks :: bool
  asertAnchorParams :: ASERTAnchor

record CBlockIndex =
  nHeight :: int
  index_GetBlockTime :: int
  nBits :: uint32
  index_IsAuxpow :: bool

record CBlockHeader =
  GetBlockTime :: int
  IsAuxpow :: bool

type_synonym chain = "CBlockIndex list"

section \<open>The retargeting dispatcher\<close>

text \<open>
  The loop of lines 57-62 of \<open>GetNextASERTWorkRequired\<close>: every node above the anchor
  height whose lane differs from the candidate's takes one off the height difference.
\<close>

fun height_diff_walk :: "chain \<Rightarrow> bool \<Rightarrow> int \<Rightarrow> int \<Rightarrow> int" where
  "height_diff_walk [] aux anchorHeight nHeightDiff = nHeightDiff"
| "height_diff_walk (pindexPrev # pprev) aux anchorHeight nHeightDiff =
     (if nHeight pindexPrev > anchorHeight
      then height_diff_walk pprev aux anchorHeight
             (if index_IsAuxpow pindexPrev \<noteq> aux then nHeightDiff - 1 else nHeightDiff)
      else nHeightDiff)"

definition anchor_bits :: "CBlockHeader \<Rightarrow> Params \<Rightarrow> uint32" where
  "anchor_bits pblock params =
     (if IsAuxpow pblock then nBitsAuxPow (asertAnchorParams params)
      else nBitsLegacy (asertAnchorParams params))"

definition anchor_spacing :: "CBlockHeader \<Rightarrow> Params \<Rightarrow> int" where
  "anchor_spacing pblock params =
     (if IsAuxpow pblock then nPowTargetSpacingAuxPow params
      else nPowTargetSpacingLegacy params)"

definition ASERT_nTimeDiff :: "CBlockIndex \<Rightarrow> Params \<Rightarrow> int" where
  "ASERT_nTimeDiff pindexPrev params =
     index_GetBlockTime pindexPrev - nBlockTime (asertAnchorParams params)"

definition ASERT_nHeightDiff :: "chain \<Rightarrow> CBlockHeader \<Rightarrow> Params \<Rightarrow> int" where
  "ASERT_nHeightDiff c pblock params =
     height_diff_walk c (IsAuxpow pblock) (anchor_nHeight (asertAnchorParams params))
       (nHeight (hd c) - anchor_nHeight (asertAnchorParams params))"

text \<open>\<open>GetNextASERTWorkRequired\<close> (lines 23-77).\<close>

fun GetNextASERTWorkRequired :: "chain \<Rightarrow> CBlockHeader \<Rightarrow> Params \<Rightarrow> failure + uint32" where
  "GetNextASERTWorkRequired [] pblock params = Inl NullIndex"
| "GetNextASERTWorkRequired (pindexPrev # pprev) pblock params =
    (if \<not> anchor_nHeight (asertAnchorParams params) > 0 then Inl AssertAnchorHeight
     else if \<not> nHeight pindexPrev > anchor_nHeight (asertAnchorParams params)
       then Inl AssertPrevAboveAnchor
     else if pprev = [] then Inl AssertPrevHasParent
     else if \<not> in_int64 (ASERT_nTimeDiff pindexPrev params) then Inl SignedOverflow
     else
       (case CalculateASERT (fst (SetCompact (anchor_bits pblock params)))
               (anchor_spacing pblock params)
               (ASERT_nTimeDiff pindexPrev params)
               (ASERT_nHeightDiff (pindexPrev # pprev) pblock params)
               (powLimit params)
               (nASERTHalfLife params) of
          Inl e \<Rightarrow> Inl e
        | Inr nextTarget \<Rightarrow> Inr (GetCompact nextTarget)))"

text \<open>
  The lane-matching walk of \<open>GetNextWorkRequired\<close> (lines 191-212): the \<open>while\<close> loop
  together with the code that follows it, which runs when the loop ends at a node of the
  candidate's lane.  Following \<open>pprev\<close> past the last node dereferences a null pointer.
\<close>

fun lane_walk :: "chain \<Rightarrow> CBlockHeader \<Rightarrow> Params \<Rightarrow> failure + uint32" where
  "lane_walk [] pblock params = Inl NullIndex"
| "lane_walk (pindexPrev # pprev) pblock params =
    (if index_IsAuxpow pindexPrev \<noteq> IsAuxpow pblock then
       (if nHeight pindexPrev \<le> anchor_nHeight (asertAnchorParams params)
        then (if IsAuxpow pblock then Inr (nBitsAuxPow (asertAnchorParams params))
              else Inr (nBitsLegacy (asertAnchorParams params)))
        else lane_walk pprev pblock params)
     else if nHeight pindexPrev \<le> anchor_nHeight (asertAnchorParams params)
       then (if IsAuxpow pblock then Inr (nBitsAuxPow (asertAnchorParams params))
             else Inr (nBitsLegacy (asertAnchorParams params)))
     else GetNextASERTWorkRequired (pindexPrev # pprev) pblock params)"

text \<open>\<open>GetNextWorkRequired\<close> (lines 167-213).\<close>

fun GetNextWorkRequired :: "chain \<Rightarrow> CBlockHeader \<Rightarrow> Params \<Rightarrow> failure + uint32" where
  "GetNextWorkRequired [] pblock params = Inl NullIndex"
| "GetNextWorkRequired (pindexLast # pprev) pblock params =
    (if fPowNoRetargeting params then Inr (nBits pindexLast)
     else if \<not> anchor_nHeight (asertAnchorParams params) > 0 then Inl AssertAnchorHeight
     else if nHeight pindexLast \<le> anchor_nHeight (asertAnchorParams params)
       then Inr (nBitsLegacy (asertAnchorParams params))
     else if fPowAllowMinDifficultyBlocks params
             \<and> \<not> (in_int64 (2 * nPowTargetSpacingAuxPow params)
                  \<and> in_int64 (index_GetBlockTime pindexLast + 2 * nPowTargetSpacingAuxPow params))
       then Inl SignedOverflow
     else if fPowAllowMinDifficultyBlocks params
             \<and> GetBlockTime pblock
                 > index_GetBlockTime pindexLast + 2 * nPowTargetSpacingAuxPow params
       then Inr (GetCompact (powLimit params))
     else lane_walk (pindexLast # pprev) pblock params)"

section \<open>The legacy retargeter\<close>

text \<open>\<open>CalculateNextWorkRequired\<close> (lines 215-238).\<close>

definition CalculateNextWorkRequired :: "CBlockIndex \<Rightarrow> int \<Rightarrow> Params \<Rightarrow> failure + uint32" where
  "CalculateNextWorkRequired pindexLast nFirstBlockTime params =
    (if fPowNoRetargeting params then Inr (nBits pindexLast)
     else if \<not> in_int64 (index_GetBlockTime pindexLast - nFirstBlockTime)
            \<or> \<not> in_int64 (nPowTargetTimespan params * 4) then Inl SignedOverflow
     else
       let nActualTimespan = index_GetBlockTime pindexLast - nFirstBlockTime;
           nActualTimespan =
             (if nActualTimespan < nPowTargetTimespan params sdiv 4
              then nPowTargetTimespan params sdiv 4 else nActualTimespan);
           nActualTimespan =
             (if nActualTimespan > nPowTargetTimespan params * 4
              then nPowTargetTimespan params * 4 else nActualTimespan);
           bnPowLimit = powLimit params;
           bnNew = fst (SetCompact (nBits pindexLast));
           bnNew = bnNew * of_int64 nActualTimespan
       in if of_int64 (nPowTargetTimespan params) = 0 then Inl DivisionByZero
          else
            let bnNew = bnNew div of_int64 (nPowTargetTimespan params);
                bnNew = (if bnNew > bnPowLimit then bnPowLimit else bnNew)
            in Inr (GetCompact bnNew))"

section \<open>The transition validator\<close>

text \<open>
  \<open>PermittedDifficultyTransition\<close> (lines 242-289).  \<open>%\<close> on \<open>int64_t\<close> is the remainder
  of the truncating division (\<open>smod\<close>); it is undefined for a zero divisor and for the most
  negative dividend with divisor \<open>-1\<close>.
\<close>

definition PermittedDifficultyTransition ::
  "Params \<Rightarrow> int \<Rightarrow> uint32 \<Rightarrow> uint32 \<Rightarrow> failure + bool" where
  "PermittedDifficultyTransition params height old_nbits new_nbits =
    (if fPowAllowMinDifficultyBlocks params then Inr True
     else if DifficultyAdjustmentInterval params = 0 then Inl DivisionByZero
     else if height = - (2 ^ 63) \<and> DifficultyAdjustmentInterval params = - 1
       then Inl SignedOverflow
     else if height smod DifficultyAdjustmentInterval params = 0 then
       (if \<not> in_int64 (nPowTargetTimespan params * 4) then Inl SignedOverflow
        else if of_int64 (nPowTargetTimespan params) = 0 then Inl DivisionByZero
        else
          let smallest_timespan = nPowTargetTimespan params sdiv 4;
              largest_timespan = nPowTargetTimespan params * 4;
              pow_limit = powLimit params;
              observed_new_target = fst (SetCompact new_nbits);
              largest_difficulty_target = fst (SetCompact old_nbits);
              largest_difficulty_target = largest_difficulty_target * of_int64 largest_timespan;
              largest_difficulty_target =
                largest_difficulty_target div of_int64 (nPowTargetTimespan params);
              largest_difficulty_target =
                (if largest_difficulty_target > pow_limit then pow_limit
                 else largest_difficulty_target);
              maximum_new_target = fst (SetCompact (GetCompact largest_difficulty_target))
          in if maximum_new_target < observed_new_target then Inr False
             else
               let smallest_difficulty_target = fst (SetCompact old_nbits);
                   smallest_difficulty_target =
                     smallest_difficulty_target * of_int64 smallest_timespan;
                   smallest_difficulty_target =
                     smallest_difficulty_target div of_int64 (nPowTargetTimespan params);
                   smallest_difficulty_target =
                     (if smallest_difficulty_target > pow_limit then pow_limit
                      else smallest_difficulty_target);
                   minimum_new_target = fst (SetCompact (GetCompact smallest_difficulty_target))
               in if minimum_new_target > observed_new_target then Inr False
                  else Inr True)
     else if old_nbits \<noteq> new_nbits then Inr False
     else Inr True)"

section \<open>The proof verifier\<close>

text \<open>
  \<open>CheckProofOfWork\<close> (lines 291-308).  The hash is a 256-bit value that
  \<open>UintToArith256\<close> reads as an unsigned magnitude, which is what the order on words compares.
\<close>

definition CheckProofOfWork :: "256 word \<Rightarrow> uint32 \<Rightarrow> Params \<Rightarrow> bool" where
  "CheckProofOfWork hash nBits' params =
    (case SetCompact nBits' of (bnTarget, fNegative, fOverflow) \<Rightarrow>
       if fNegative \<or> bnTarget = 0 \<or> fOverflow \<or> bnTarget > powLimit params then False
       else if hash > bnTarget then False
       else True)"

section \<open>Well-formed chains\<close>

text \<open>
  Modelled from the spec: the block index is an ancestor-linked sequence of block summaries
  on one height sequence, so the parent of a node at height \<open>h\<close> is at height \<open>h - 1\<close>
  (the structure that builds the index is not among the sources at hand).
\<close>

fun linked :: "chain \<Rightarrow> bool" where
  "linked [] = True"
| "linked [n] = True"
| "linked (n # m # ms) = (nHeight m = nHeight n - 1 \<and> linked (m # ms))"

text \<open>
  The number of nodes of a chain that lie strictly above the anchor height and on the other
  lane than the candidate.
\<close>

definition foreign_above :: "chain \<Rightarrow> bool \<Rightarrow> int \<Rightarrow> nat" where
  "foreign_above c aux anchorHeight =
     length (filter (\<lambda>n. nHeight n > anchorHeight \<and> index_IsAuxpow n \<noteq> aux) c)"

section \<open>Reference arithmetic for the legacy rules\<close>

text \<open>
  The definitions of this section model no code: they are the arithmetic on unbounded
  natural numbers that the statements about the legacy retargeter and the transition
  validator compare the machine computations with.

  \<open>clamp_timespan\<close> is the clamping of an actual timespan to a quarter and four times the
  ideal one, and \<open>legacy_retarget\<close> the scaled target: the decoded target times the clamped
  timespan (the product of two 256-bit operands, kept to 256 bits), then divided by the ideal
  timespan, then limited by the ceiling.
\<close>

definition clamp_timespan :: "int \<Rightarrow> int \<Rightarrow> int" where
  "clamp_timespan timespan actual = min (timespan * 4) (max (timespan div 4) actual)"

definition legacy_retarget :: "nat \<Rightarrow> int \<Rightarrow> int \<Rightarrow> nat \<Rightarrow> nat" where
  "legacy_retarget target actual timespan limit =
     min limit ((target * nat (clamp_timespan timespan actual)) mod 2 ^ 256 div nat timespan)"











section \<open>Example parameters\<close>

text \<open>
  Parameters used to run the definitions on concrete inputs: the ceiling \<open>0xffff * 2 ^ 208\<close>
  (packed \<open>0x1d00ffff\<close>), ten-minute spacing on both lanes, a two-week retarget timespan of
  2016 blocks, a two-day half-life, and an anchor at height 100 and time 1000000 whose
  packed targets differ between the lanes.
\<close>

definition example_anchor :: ASERTAnchor where
  "example_anchor =
     \<lparr>anchor_nHeight = 100, nBitsLegacy = 0x1c00ffff, nBitsAuxPow = 0x1c0fffff,
      nBlockTime = 1000000\<rparr>"

definition example_params :: Params where
  "example_params =
     \<lparr>powLimit = 0xffff * 2 ^ 208, nPowTargetSpacingLegacy = 600,
      nPowTargetSpacingAuxPow = 600, nPowTargetTimespan = 1209600,
      DifficultyAdjustmentInterval = 2016, nASERTHalfLife = 172800,
      fPowNoRetargeting = False, fPowAllowMinDifficultyBlocks = False,
      asertAnchorParams = example_anchor\<rparr>"

text \<open>
  A chain of four nodes down to the anchor height, with one auxiliary-lane node at height 102,
  and two candidate headers, one on each lane.
\<close>

definition example_chain :: chain where
  "example_chain =
     [\<lparr>nHeight = 103, index_GetBlockTime = 1001500, nBits = 0x1c00aaaa, index_IsAuxpow = False\<rparr>,
      \<lparr>nHeight = 102, index_GetBlockTime = 1001200, nBits = 0x1c0aaaaa, index_IsAuxpow = True\<rparr>,
      \<lparr>nHeight = 101, index_GetBlockTime = 1000600, nBits = 0x1c00aaaa, index_IsAuxpow = False\<rparr>,
      \<lparr>nHeight = 100, index_GetBlockTime = 1000000, nBits = 0x1c00aaaa, index_IsAuxpow = False\<rparr>]"

definition anchor_node :: CBlockIndex where
  "anchor_node =
     \<lparr>nHeight = 100, index_GetBlockTime = 1000000, nBits = 0x1c00aaaa, index_IsAuxpow = False\<rparr>"

definition above_anchor_node :: CBlockIndex where
  "above_anchor_node =
     \<lparr>nHeight = 101, index_GetBlockTime = 1000600, nBits = 0x1c00aaaa, index_IsAuxpow = False\<rparr>"

definition aux_candidate :: CBlockHeader where
  "aux_candidate = \<lparr>GetBlockTime = 1001800, IsAuxpow = True\<rparr>"

definition legacy_candidate :: CBlockHeader where
  "legacy_candidate = \<lparr>GetBlockTime = 1001800, IsAuxpow = False\<rparr>"

text \<open>A node at the end of a retarget window whose timespan was twice the ideal one.\<close>

definition retarget_node :: CBlockIndex where
  "retarget_node =
     \<lparr>nHeight = 4031, index_GetBlockTime = 3419200, nBits = 0x1c00ffff, index_IsAuxpow = False\<rparr>"

section \<open>Evaluation of the packed format\<close>

lemma bit_length_0 [simp]: "bit_length 0 = 0"
  by (subst bit_length.simps) simp

lemma bit_length_Suc_0 [simp]: "bit_length (Suc 0) = Suc 0"
  by (subst bit_length.simps) simp

lemma bit_length_numeral [simp]:
  "bit_length (numeral k) = Suc (bit_length (numeral k div 2))"
  by (subst bit_length.simps) simp

lemma SetCompact_1d00ffff: "SetCompact 0x1d00ffff = (0xffff * 2 ^ 208, False, False)"
  by (simp add: SetCompact_def Let_def)

lemma SetCompact_04923456: "SetCompact 0x04923456 = (0x12345600, True, False)"
  by (simp add: SetCompact_def Let_def)

lemma SetCompact_01003456: "SetCompact 0x01003456 = (0, False, False)"
  by (simp add: SetCompact_def Let_def)

lemma SetCompact_23000001: "SetCompact 0x23000001 = (0, False, True)"
  by (simp add: SetCompact_def Let_def)

lemma SetCompact_1e00ffff: "SetCompact 0x1e00ffff = (0xffff * 2 ^ 216, False, False)"
  by (simp add: SetCompact_def Let_def)

lemma GetCompact_ceiling: "GetCompact (0xffff * 2 ^ 208) = 0x1d00ffff"
  by (simp add: GetCompact_def Let_def bits_def)

section \<open>The transition validator away from a retarget boundary\<close>

lemma smod_eq_0_iff_dvd: "(k::int) smod l = 0 \<longleftrightarrow> l dvd k"
proof -
  have "k smod l = 0 \<longleftrightarrow> k = 0 \<or> \<bar>k\<bar> mod \<bar>l\<bar> = 0"
    by (simp add: signed_modulo_int_def sgn_if)
  also have "\<dots> \<longleftrightarrow> k = 0 \<or> \<bar>l\<bar> dvd \<bar>k\<bar>"
    by (simp only: mod_eq_0_iff_dvd)
  also have "\<dots> \<longleftrightarrow> l dvd k"
    by auto
  finally show ?thesis .
qed

text \<open>
  Claim C7.  With the minimum-difficulty exemption off and a height that is not a multiple of
  the (non-zero) difficulty-adjustment interval, \<open>PermittedDifficultyTransition\<close> returns, and
  it returns true exactly when the new packed target is the same 32-bit value as the old one.
\<close>

theorem PermittedDifficultyTransition_off_boundary:
  assumes "\<not> fPowAllowMinDifficultyBlocks params"
    and "DifficultyAdjustmentInterval params \<noteq> 0"
    and "\<not> DifficultyAdjustmentInterval params dvd height"
  shows "PermittedDifficultyTransition params height old_nbits new_nbits
           = Inr (old_nbits = new_nbits)"
  using assms by (auto simp: PermittedDifficultyTransition_def smod_eq_0_iff_dvd)

theorem PermittedDifficultyTransition_off_boundary_witness:
  "PermittedDifficultyTransition example_params 2017 0x1d00ffff 0x1d00ffff = Inr True
   \<and> PermittedDifficultyTransition example_params 2017 0x1d00ffff 0x1d00fffe = Inr False"
  using PermittedDifficultyTransition_off_boundary
          [of example_params 2017 "0x1d00ffff" "0x1d00ffff"]
        PermittedDifficultyTransition_off_boundary
          [of example_params 2017 "0x1d00ffff" "0x1d00fffe"]
  by (simp add: example_params_def)

section \<open>The proof verifier\<close>

text \<open>
  Claim C9.  \<open>CheckProofOfWork\<close> is false when decoding the packed target reports negative or
  overflow, when the decoded target is zero and when it is above the ceiling; in every other
  case it is true exactly when the hash, read as an unsigned 256-bit number, is at most the
  decoded target.
\<close>

theorem CheckProofOfWork_iff:
  "CheckProofOfWork hash nBits' params \<longleftrightarrow>
     (case SetCompact nBits' of (bnTarget, fNegative, fOverflow) \<Rightarrow>
        \<not> (fNegative \<or> fOverflow \<or> bnTarget = 0 \<or> unat bnTarget > unat (powLimit params))
        \<and> unat hash \<le> unat bnTarget)"
  by (auto simp: CheckProofOfWork_def word_le_nat_alt word_less_nat_alt split: prod.splits)

theorem CheckProofOfWork_iff_witness:
  "CheckProofOfWork (0xffff * 2 ^ 208) 0x1d00ffff example_params
   \<and> \<not> CheckProofOfWork (0xffff * 2 ^ 208 + 1) 0x1d00ffff example_params
   \<and> \<not> CheckProofOfWork 0 0x04923456 example_params
   \<and> \<not> CheckProofOfWork 0 0x23000001 example_params
   \<and> \<not> CheckProofOfWork 0 0x01003456 example_params
   \<and> \<not> CheckProofOfWork 0 0x1e00ffff example_params"
  using CheckProofOfWork_iff [of "0xffff * 2 ^ 208" "0x1d00ffff" example_params]
        CheckProofOfWork_iff [of "0xffff * 2 ^ 208 + 1" "0x1d00ffff" example_params]
        CheckProofOfWork_iff [of 0 "0x04923456" example_params]
        CheckProofOfWork_iff [of 0 "0x23000001" example_params]
        CheckProofOfWork_iff [of 0 "0x01003456" example_params]
        CheckProofOfWork_iff [of 0 "0x1e00ffff" example_params]
  by (simp add: example_params_def SetCompact_1d00ffff SetCompact_04923456
        SetCompact_23000001 SetCompact_01003456 SetCompact_1e00ffff)

section \<open>The ASERT calculator against unbounded arithmetic\<close>

lemma factor_poly_mono: "m \<le> n \<Longrightarrow> factor_poly m \<le> factor_poly n"
  unfolding factor_poly_def
  by (intro add_mono mult_le_mono order_refl)

lemma factor_poly_bound:
  assumes "n < 65536"
  shows "factor_poly n < 2 ^ 64"
proof -
  have "factor_poly n \<le> factor_poly 65535"
    using assms by (intro factor_poly_mono) simp
  also have "\<dots> < 2 ^ 64"
    by (simp add: factor_poly_def)
  finally show ?thesis .
qed

lemma factor_nat_mono: "m \<le> n \<Longrightarrow> factor_nat m \<le> factor_nat n"
  unfolding factor_nat_def
  by (intro add_mono div_le_mono factor_poly_mono order_refl)

lemma factor_nat_lower: "65536 \<le> factor_nat n"
  by (simp add: factor_nat_def)

lemma factor_nat_upper:
  assumes "n < 65536"
  shows "factor_nat n \<le> 131071"
proof -
  have "factor_nat n \<le> factor_nat 65535"
    using assms by (intro factor_nat_mono) simp
  also have "\<dots> = 131071"
    by (simp add: factor_nat_def factor_poly_def)
  finally show ?thesis .
qed

lemma factor_nat_0: "factor_nat 0 = 65536"
  by (simp add: factor_nat_def factor_poly_def)

lemma unat_drop_bit_div: "unat (drop_bit k w) = unat w div 2 ^ k"
  by (subst unat_drop_bit_eq) (rule drop_bit_eq_div)

lemma unat_push_bit_mod:
  "unat (push_bit k (w::'a::len word)) = (unat w * 2 ^ k) mod 2 ^ LENGTH('a)"
proof -
  have "unat (push_bit k w) = take_bit LENGTH('a) (push_bit k (unat w))"
    by (rule unsigned_push_bit_eq)
  then show ?thesis
    by (simp only: take_bit_eq_mod push_bit_eq_mult)
qed

lemma ASERT_factor_of_nat:
  "ASERT_factor frac = word_of_nat (factor_nat (unat frac))"
proof -
  define n where "n = unat frac"
  have n: "n < 65536"
    using unsigned_less [of frac, where 'a = nat] by (simp add: n_def)
  have uc: "(ucast frac :: uint64) = word_of_nat n"
    by (simp add: n_def)
  have poly: "195766423245049 * ucast frac + 971821376 * ucast frac * ucast frac
          + 5127 * ucast frac * ucast frac * ucast frac + push_bit 47 1
          = (word_of_nat (factor_poly n) :: uint64)"
    by (simp add: uc factor_poly_def push_bit_eq_mult)
  have "unat (drop_bit 48 (word_of_nat (factor_poly n) :: uint64)) = factor_poly n div 2 ^ 48"
  proof -
    have "unat (word_of_nat (factor_poly n) :: uint64) = factor_poly n"
      using factor_poly_bound [OF n] by (simp add: unat_of_nat)
    then show ?thesis
      by (simp only: unat_drop_bit_div)
  qed
  then have db: "drop_bit 48 (word_of_nat (factor_poly n) :: uint64)
                   = word_of_nat (factor_poly n div 2 ^ 48)"
  proof -
    have "factor_poly n div 2 ^ 48 < 2 ^ 64"
      using factor_poly_bound [OF n] div_le_dividend [of "factor_poly n" "2 ^ 48"]
      by (rule le_less_trans [rotated])
    then show ?thesis
      using \<open>unat (drop_bit 48 (word_of_nat (factor_poly n) :: uint64)) = factor_poly n div 2 ^ 48\<close>
      by (simp add: word_unat_eq_iff unat_of_nat)
  qed
  have "ASERT_factor frac
          = ucast (65536 + word_of_nat (factor_poly n div 2 ^ 48) :: uint64)"
    unfolding ASERT_factor_def poly db ..
  also have "\<dots> = ucast (word_of_nat (factor_nat n) :: uint64)"
    by (simp add: factor_nat_def)
  also have "\<dots> = (word_of_nat (factor_nat n) :: uint32)"
  proof -
    have "factor_nat n < 2 ^ 32"
      using factor_nat_upper [OF n] by simp
    then have "unat (ucast (word_of_nat (factor_nat n) :: uint64) :: uint32)
                 = unat (word_of_nat (factor_nat n) :: uint32)"
      by (simp add: unsigned_ucast_eq unsigned_of_nat take_bit_nat_eq_self)
    then show ?thesis
      by (simp only: word_eq_iff_unsigned [where ?'a = nat])
  qed
  finally show ?thesis by (simp add: n_def)
qed

lemma scale_pow2_mono_left: "x \<le> y \<Longrightarrow> scale_pow2 x s \<le> scale_pow2 y s"
  by (simp add: scale_pow2_def div_le_mono)

lemma scale_pow2_neg: "scale_pow2 x (- int k) = x div 2 ^ k"
  by (simp add: scale_pow2_def)

lemma scale_pow2_pos: "scale_pow2 x (int k) = x * 2 ^ k"
  by (cases "k = 0") (simp_all add: scale_pow2_def)

lemma scale_pow2_double_neg: "scale_pow2 (2 * x) (- int (Suc k)) = scale_pow2 x (- int k)"
  by (simp only: scale_pow2_neg) simp

lemma scale_pow2_double_pos: "scale_pow2 (2 * x) (int k) = scale_pow2 x (int (Suc k))"
  by (simp only: scale_pow2_pos) simp

lemma scale_pow2_double: "scale_pow2 (2 * x) s = scale_pow2 x (s + 1)"
proof (cases "s < 0")
  case True
  define k where "k = nat (- s - 1)"
  from True have s: "s = - int (Suc k)" and s1: "s + 1 = - int k"
    by (simp_all add: k_def)
  show ?thesis
    unfolding s1 by (subst s) (rule scale_pow2_double_neg)
next
  case False
  define k where "k = nat s"
  from False have s: "s = int k" and s1: "s + 1 = int (Suc k)"
    by (simp_all add: k_def)
  show ?thesis
    unfolding s1 by (subst s) (rule scale_pow2_double_pos)
qed

lemma scale_pow2_step: "scale_pow2 x s \<le> scale_pow2 x (s + 1)"
proof -
  have "scale_pow2 x s \<le> scale_pow2 (2 * x) s"
    by (rule scale_pow2_mono_left) simp
  then show ?thesis
    by (simp only: scale_pow2_double)
qed

lemma scale_pow2_mono_right:
  assumes "s \<le> t"
  shows "scale_pow2 x s \<le> scale_pow2 x t"
proof -
  have "scale_pow2 x s \<le> scale_pow2 x (s + int k)" for k
  proof (induction k)
    case 0
    show ?case by simp
  next
    case (Suc k)
    have "scale_pow2 x (s + int k) \<le> scale_pow2 x (s + int k + 1)"
      by (rule scale_pow2_step)
    moreover have "s + int (Suc k) = s + int k + 1"
      by simp
    ultimately show ?case
      using Suc by (simp only: order_trans)
  qed
  from this [of "nat (t - s)"] assms show ?thesis
    by simp
qed

lemma ASERT_target_scaled:
  "ASERT_target ref e limit =
     max 1 (min limit (scale_pow2 (ref * factor_nat (nat (e mod 65536))) (e div 65536 - 16)))"
  by (simp add: ASERT_target_def ASERT_unbounded_def)

lemma scaled_factor_mono:
  assumes "e1 \<le> e2"
  shows "scale_pow2 (ref * factor_nat (nat (e1 mod 65536))) (e1 div 65536 - 16)
           \<le> scale_pow2 (ref * factor_nat (nat (e2 mod 65536))) (e2 div 65536 - 16)"
proof (cases "e1 div 65536 = e2 div 65536")
  case True
  have "e1 mod 65536 = e1 - 65536 * (e1 div 65536)" "e2 mod 65536 = e2 - 65536 * (e2 div 65536)"
    by (simp_all add: minus_mult_div_eq_mod)
  with True assms have "e1 mod 65536 \<le> e2 mod 65536"
    by simp
  then have "factor_nat (nat (e1 mod 65536)) \<le> factor_nat (nat (e2 mod 65536))"
    by (intro factor_nat_mono nat_mono)
  then have "ref * factor_nat (nat (e1 mod 65536)) \<le> ref * factor_nat (nat (e2 mod 65536))"
    by (rule mult_le_mono2)
  then show ?thesis
    unfolding True by (rule scale_pow2_mono_left)
next
  case False
  have "e1 div 65536 \<le> e2 div 65536"
    using assms by (rule zdiv_mono1) simp
  with False have q: "e1 div 65536 - 16 + 1 \<le> e2 div 65536 - 16"
    by simp
  have "nat (e1 mod 65536) < 65536"
    by simp
  then have "factor_nat (nat (e1 mod 65536)) \<le> 131071"
    by (rule factor_nat_upper)
  then have "ref * factor_nat (nat (e1 mod 65536)) \<le> 2 * (ref * 65536)"
    by simp
  then have "scale_pow2 (ref * factor_nat (nat (e1 mod 65536))) (e1 div 65536 - 16)
               \<le> scale_pow2 (2 * (ref * 65536)) (e1 div 65536 - 16)"
    by (rule scale_pow2_mono_left)
  also have "\<dots> = scale_pow2 (ref * 65536) (e1 div 65536 - 16 + 1)"
    by (rule scale_pow2_double)
  also have "\<dots> \<le> scale_pow2 (ref * 65536) (e2 div 65536 - 16)"
    using q by (rule scale_pow2_mono_right)
  also have "\<dots> \<le> scale_pow2 (ref * factor_nat (nat (e2 mod 65536))) (e2 div 65536 - 16)"
    by (intro scale_pow2_mono_left mult_le_mono2 factor_nat_lower)
  finally show ?thesis .
qed

lemma ASERT_target_mono:
  assumes "e1 \<le> e2"
  shows "ASERT_target ref e1 limit \<le> ASERT_target ref e2 limit"
  unfolding ASERT_target_scaled
  using scaled_factor_mono [OF assms, of ref] by (intro max.mono min.mono order_refl)

lemma unat_clamp_target:
  fixes v limit :: arith_uint256
  assumes "limit \<noteq> 0"
  shows "unat (if v = 0 then 1 else if v > limit then limit else v)
           = max 1 (min (unat limit) (unat v))"
proof -
  have "0 < unat limit"
    using assms by (simp add: unat_gt_0)
  moreover have "v \<noteq> 0 \<Longrightarrow> 0 < unat v"
    by (simp add: unat_gt_0)
  ultimately show ?thesis
    by (auto simp: word_less_nat_alt)
qed

lemma apply_shifts_right:
  fixes x limit :: arith_uint256
  assumes "s \<le> 0"
  shows "ASERT_apply_shifts x s limit =
           (let v = drop_bit (nat (- s)) x in if v = 0 then 1 else if v > limit then limit else v)"
  using assms by (simp add: ASERT_apply_shifts_def)

lemma apply_shifts_left_fits:
  fixes x limit :: arith_uint256
  assumes "\<not> s \<le> 0" and "drop_bit (nat s) (push_bit (nat s) x) = x"
  shows "ASERT_apply_shifts x s limit =
           (let v = push_bit (nat s) x in if v = 0 then 1 else if v > limit then limit else v)"
  using assms by (simp add: ASERT_apply_shifts_def Let_def)

lemma apply_shifts_left_over:
  fixes x limit :: arith_uint256
  assumes "\<not> s \<le> 0" and "drop_bit (nat s) (push_bit (nat s) x) \<noteq> x"
  shows "ASERT_apply_shifts x s limit =
           (if limit = 0 then 1 else limit)"
  using assms by (simp add: ASERT_apply_shifts_def Let_def)

lemma push_bit_fits:
  fixes x :: arith_uint256
  assumes "unat x * 2 ^ n < 2 ^ 256"
  shows "unat (push_bit n x) = unat x * 2 ^ n" and "drop_bit n (push_bit n x) = x"
proof -
  show u: "unat (push_bit n x) = unat x * 2 ^ n"
    using assms by (simp add: unat_push_bit_mod)
  have "unat (drop_bit n (push_bit n x)) = unat x"
    unfolding unat_drop_bit_div u by simp
  then show "drop_bit n (push_bit n x) = x"
    by (simp only: word_unat_eq_iff)
qed

lemma push_bit_overflows:
  fixes x :: arith_uint256
  assumes "\<not> unat x * 2 ^ n < 2 ^ 256"
  shows "drop_bit n (push_bit n x) \<noteq> x"
proof -
  define m :: nat where "m = 2 ^ 256"
  have m: "0 < m"
    by (simp add: m_def)
  have "unat (push_bit n x) = (unat x * 2 ^ n) mod m"
    by (simp add: unat_push_bit_mod m_def)
  moreover have "(unat x * 2 ^ n) mod m < m"
    using m by (rule mod_less_divisor)
  moreover have "m \<le> unat x * 2 ^ n"
    using assms by (simp add: m_def)
  ultimately have "unat (push_bit n x) < unat x * 2 ^ n"
    by linarith
  then have "unat (push_bit n x) div 2 ^ n < unat x"
    by (rule less_mult_imp_div_less)
  then have "unat (drop_bit n (push_bit n x)) \<noteq> unat x"
    by (simp only: unat_drop_bit_div)
  then show ?thesis
    by auto
qed

lemma unat_ASERT_apply_shifts:
  fixes x limit :: arith_uint256
  assumes "x \<noteq> 0" and "limit \<noteq> 0"
  shows "unat (ASERT_apply_shifts x s limit) = max 1 (min (unat limit) (scale_pow2 (unat x) s))"
proof (cases "s \<le> 0")
  case True
  have "unat (drop_bit (nat (- s)) x) = scale_pow2 (unat x) s"
    using True by (simp add: unat_drop_bit_div scale_pow2_def)
  then show ?thesis
    unfolding apply_shifts_right [OF True] Let_def
    by (simp only: unat_clamp_target [OF assms(2)])
next
  case False
  have sc: "scale_pow2 (unat x) s = unat x * 2 ^ nat s"
    using False by (simp add: scale_pow2_def)
  show ?thesis
  proof (cases "unat x * 2 ^ nat s < 2 ^ 256")
    case fits: True
    show ?thesis
      unfolding apply_shifts_left_fits [OF False push_bit_fits(2) [OF fits]] Let_def
      by (simp only: unat_clamp_target [OF assms(2)] push_bit_fits(1) [OF fits] sc)
  next
    case over: False
    have "unat limit < 2 ^ 256"
      using unsigned_less [of limit, where 'a = nat] by simp
    with over have "unat limit \<le> unat x * 2 ^ nat s"
      by linarith
    moreover have "1 \<le> unat limit"
      using assms(2) by (simp add: unat_gt_0 Suc_le_eq)
    ultimately have "max 1 (min (unat limit) (unat x * 2 ^ nat s)) = unat limit"
      by (simp only: min_absorb1 max_absorb2)
    then show ?thesis
      unfolding apply_shifts_left_over [OF False push_bit_overflows [OF over]] sc
      using assms(2) by simp
  qed
qed

lemma CalculateASERT_asserts_pass:
  assumes "0 < refTarget" and "refTarget \<le> limit" and "drop_bit 224 limit = 0"
    and "0 < nHeightDiff" and "in_int64 (nPowTargetSpacing * nHeightDiff)"
    and "\<bar>nTimeDiff - nPowTargetSpacing * nHeightDiff\<bar> < 2 ^ 47" and "nHalfLife \<noteq> 0"
  shows "CalculateASERT refTarget nPowTargetSpacing nTimeDiff nHeightDiff limit nHalfLife =
           Inr (ASERT_apply_shifts
                  (refTarget * ucast (ASERT_factor (word_of_int
                      (ASERT_exponent nPowTargetSpacing nTimeDiff nHeightDiff nHalfLife))))
                  (ASERT_exponent nPowTargetSpacing nTimeDiff nHeightDiff nHalfLife div 65536 - 16)
                  limit)"
proof -
  have range: "in_int64 (nTimeDiff - nPowTargetSpacing * nHeightDiff)"
    using assms(6) by (simp add: in_int64_def abs_less_iff)
  have dec: "e = e div 65536 * 65536 + uint (word_of_int e :: 16 word)" for e :: int
    by (simp add: uint_word_of_int)
  show ?thesis
    unfolding CalculateASERT_def Let_def
    using assms range dec [of "ASERT_exponent nPowTargetSpacing nTimeDiff nHeightDiff nHalfLife"]
    by simp
qed

lemma unat_ASERT_product:
  fixes refTarget limit :: arith_uint256
  assumes "refTarget \<le> limit" and "drop_bit 224 limit = 0"
  shows "unat (refTarget * ucast (ASERT_factor (word_of_int e)))
           = unat refTarget * factor_nat (nat (e mod 65536))"
proof -
  define f where "f = factor_nat (nat (e mod 65536))"
  have frac: "unat (word_of_int e :: 16 word) = nat (e mod 65536)"
    by (simp add: unsigned_of_int take_bit_eq_mod)
  have f: "f \<le> 131071"
    unfolding f_def by (rule factor_nat_upper) simp
  have "unat (ASERT_factor (word_of_int e)) = f"
    using f by (simp add: ASERT_factor_of_nat frac f_def unat_of_nat)
  then have uf: "unat (ucast (ASERT_factor (word_of_int e)) :: arith_uint256) = f"
    using f by (simp add: unsigned_ucast_eq take_bit_nat_eq_self)
  have "unat limit div 2 ^ 224 = 0"
    using assms(2) by (simp only: unat_drop_bit_div [symmetric]) simp
  then have "unat limit < 2 ^ 224"
    by (simp add: div_eq_0_iff)
  moreover have "unat refTarget \<le> unat limit"
    using assms(1) by (simp add: word_le_nat_alt)
  ultimately have r: "unat refTarget < 2 ^ 224"
    by linarith
  have "unat refTarget * f \<le> unat refTarget * 131071"
    using f by (rule mult_le_mono2)
  also have "\<dots> < 2 ^ 224 * 2 ^ 32"
    using r by (intro mult_less_le_imp_less) simp_all
  finally have "unat refTarget * f < 2 ^ 256"
    by simp
  then have "unat refTarget * unat (ucast (ASERT_factor (word_of_int e)) :: arith_uint256)
               < 2 ^ LENGTH(256)"
    by (simp add: uf)
  then show ?thesis
    unfolding f_def [symmetric] by (simp only: unat_mult_lem [THEN iffD1] uf)
qed

lemma CalculateASERT_exact:
  assumes "0 < refTarget" and "refTarget \<le> limit" and "drop_bit 224 limit = 0"
    and "0 < nHeightDiff" and "in_int64 (nPowTargetSpacing * nHeightDiff)"
    and "\<bar>nTimeDiff - nPowTargetSpacing * nHeightDiff\<bar> < 2 ^ 47" and "nHalfLife \<noteq> 0"
  shows "\<exists>t. CalculateASERT refTarget nPowTargetSpacing nTimeDiff nHeightDiff limit nHalfLife
               = Inr t
             \<and> unat t = ASERT_target (unat refTarget)
                          (ASERT_exponent nPowTargetSpacing nTimeDiff nHeightDiff nHalfLife)
                          (unat limit)"
proof -
  define e where "e = ASERT_exponent nPowTargetSpacing nTimeDiff nHeightDiff nHalfLife"
  define x where "x = refTarget * ucast (ASERT_factor (word_of_int e))"
  have ux: "unat x = unat refTarget * factor_nat (nat (e mod 65536))"
    unfolding x_def using assms(2,3) by (rule unat_ASERT_product)
  have "0 < unat refTarget"
    using assms(1) by (simp add: word_less_nat_alt)
  moreover have "0 < factor_nat (nat (e mod 65536))"
    using factor_nat_lower [of "nat (e mod 65536)"] by linarith
  ultimately have "0 < unat x"
    unfolding ux by simp
  then have x: "x \<noteq> 0"
    by (simp add: unat_gt_0)
  have l: "limit \<noteq> 0"
    using assms(1,2) by auto
  have "CalculateASERT refTarget nPowTargetSpacing nTimeDiff nHeightDiff limit nHalfLife
          = Inr (ASERT_apply_shifts x (e div 65536 - 16) limit)"
    unfolding x_def e_def using assms by (rule CalculateASERT_asserts_pass)
  moreover have "unat (ASERT_apply_shifts x (e div 65536 - 16) limit)
                   = ASERT_target (unat refTarget) e (unat limit)"
    unfolding ASERT_target_scaled ux [symmetric] using x l by (rule unat_ASERT_apply_shifts)
  ultimately show ?thesis
    unfolding e_def by blast
qed

lemma sdiv_mono:
  fixes a b c :: int
  assumes "a \<le> b" and "0 < c"
  shows "a sdiv c \<le> b sdiv c"
proof -
  have neg: "k sdiv c = - ((- k) div c)" if "k < 0" for k
    using that assms(2) by (simp add: signed_divide_int_def sgn_if)
  have pos: "k sdiv c = k div c" if "0 \<le> k" for k
    using that assms(2) by (simp add: signed_divide_int_def sgn_if)
  consider "b < 0" | "a < 0" "0 \<le> b" | "0 \<le> a"
    by linarith
  then show ?thesis
  proof cases
    case 1
    then have "a < 0" using assms(1) by simp
    have "(- b) div c \<le> (- a) div c"
      using assms by (intro zdiv_mono1) simp_all
    then show ?thesis
      by (simp add: neg [OF 1] neg [OF \<open>a < 0\<close>])
  next
    case 2
    have "0 \<le> (- a) div c"
      using 2(1) assms(2) by (simp add: pos_imp_zdiv_nonneg_iff)
    moreover have "0 \<le> b div c"
      using 2(2) assms(2) by (simp add: pos_imp_zdiv_nonneg_iff)
    ultimately show ?thesis
      by (simp add: neg [OF 2(1)] pos [OF 2(2)])
  next
    case 3
    then have "0 \<le> b" using assms(1) by simp
    have "a div c \<le> b div c"
      using assms by (intro zdiv_mono1)
    then show ?thesis
      by (simp add: pos [OF 3] pos [OF \<open>0 \<le> b\<close>])
  qed
qed

lemma ASERT_exponent_mono:
  assumes "0 < nHalfLife"
    and "nTimeDiff1 - nPowTargetSpacing * nHeightDiff1 \<le> nTimeDiff2 - nPowTargetSpacing * nHeightDiff2"
  shows "ASERT_exponent nPowTargetSpacing nTimeDiff1 nHeightDiff1 nHalfLife
           \<le> ASERT_exponent nPowTargetSpacing nTimeDiff2 nHeightDiff2 nHalfLife"
  unfolding ASERT_exponent_def
  using assms by (intro sdiv_mono) simp_all

lemma CalculateASERT_mono_schedule:
  assumes "0 < refTarget" and "refTarget \<le> limit" and "drop_bit 224 limit = 0"
    and "0 < nHalfLife"
    and "0 < nHeightDiff1" and "in_int64 (nPowTargetSpacing * nHeightDiff1)"
    and "\<bar>nTimeDiff1 - nPowTargetSpacing * nHeightDiff1\<bar> < 2 ^ 47"
    and "0 < nHeightDiff2" and "in_int64 (nPowTargetSpacing * nHeightDiff2)"
    and "\<bar>nTimeDiff2 - nPowTargetSpacing * nHeightDiff2\<bar> < 2 ^ 47"
    and "nTimeDiff1 - nPowTargetSpacing * nHeightDiff1 \<le> nTimeDiff2 - nPowTargetSpacing * nHeightDiff2"
  shows "\<exists>t1 t2.
           CalculateASERT refTarget nPowTargetSpacing nTimeDiff1 nHeightDiff1 limit nHalfLife = Inr t1
         \<and> CalculateASERT refTarget nPowTargetSpacing nTimeDiff2 nHeightDiff2 limit nHalfLife = Inr t2
         \<and> t1 \<le> t2"
proof -
  have h: "nHalfLife \<noteq> 0"
    using assms(4) by simp
  obtain t1 where t1:
    "CalculateASERT refTarget nPowTargetSpacing nTimeDiff1 nHeightDiff1 limit nHalfLife = Inr t1"
    "unat t1 = ASERT_target (unat refTarget)
                 (ASERT_exponent nPowTargetSpacing nTimeDiff1 nHeightDiff1 nHalfLife) (unat limit)"
    using CalculateASERT_exact [OF assms(1,2,3,5,6,7) h] by blast
  obtain t2 where t2:
    "CalculateASERT refTarget nPowTargetSpacing nTimeDiff2 nHeightDiff2 limit nHalfLife = Inr t2"
    "unat t2 = ASERT_target (unat refTarget)
                 (ASERT_exponent nPowTargetSpacing nTimeDiff2 nHeightDiff2 nHalfLife) (unat limit)"
    using CalculateASERT_exact [OF assms(1,2,3,8,9,10) h] by blast
  have "unat t1 \<le> unat t2"
    unfolding t1(2) t2(2)
    by (intro ASERT_target_mono ASERT_exponent_mono assms(4) assms(11))
  then have "t1 \<le> t2"
    by (simp add: word_le_nat_alt)
  with t1(1) t2(1) show ?thesis
    by blast
qed

lemma CalculateASERT_example_on_schedule:
  "CalculateASERT (2 ^ 200) 600 1200 2 (0xffff * 2 ^ 208) 172800 = Inr (2 ^ 200)"
  by (simp add: CalculateASERT_def ASERT_exponent_def ASERT_apply_shifts_def in_int64_def
        Let_def ASERT_factor_def signed_divide_int_def)

lemma CalculateASERT_example_late:
  "CalculateASERT (2 ^ 200) 600 1800 2 (0xffff * 2 ^ 208) 172800 = Inr (65694 * 2 ^ 184)"
  by (simp add: CalculateASERT_def ASERT_exponent_def ASERT_apply_shifts_def in_int64_def
        Let_def ASERT_factor_def signed_divide_int_def)

lemma CalculateASERT_example_ahead:
  "CalculateASERT (2 ^ 200) 600 1800 3 (0xffff * 2 ^ 208) 172800 = Inr (2 ^ 200)"
  by (simp add: CalculateASERT_def ASERT_exponent_def ASERT_apply_shifts_def in_int64_def
        Let_def ASERT_factor_def signed_divide_int_def)

lemma example_preconditions:
  "(0 :: arith_uint256) < 2 ^ 200" "(2 ^ 200 :: arith_uint256) \<le> 0xffff * 2 ^ 208"
  "drop_bit 224 (0xffff * 2 ^ 208 :: arith_uint256) = 0"
  by simp_all

text \<open>
  Claim C2.  For valid inputs of \<open>CalculateASERT\<close> (reference target in \<open>(0, ceiling]\<close>,
  ceiling with 32 leading zero bits, positive height difference, positive half-life, schedule
  offset within the asserted range) both calls return, the result does not decrease when the
  time difference grows at a fixed height difference, and it does not increase when the height
  difference grows at a fixed time difference.  The ideal spacing of valid parameters is
  positive; the statement about the height difference uses only that it is not negative, and
  the one about the time difference holds for every spacing.
\<close>

theorem CalculateASERT_monotone:
  assumes "0 < refTarget" and "refTarget \<le> limit" and "drop_bit 224 limit = 0"
    and "0 < nHalfLife"
    and "0 < nHeightDiff1" and "in_int64 (nPowTargetSpacing * nHeightDiff1)"
    and "\<bar>nTimeDiff1 - nPowTargetSpacing * nHeightDiff1\<bar> < 2 ^ 47"
    and "0 < nHeightDiff2" and "in_int64 (nPowTargetSpacing * nHeightDiff2)"
    and "\<bar>nTimeDiff2 - nPowTargetSpacing * nHeightDiff2\<bar> < 2 ^ 47"
  shows "\<exists>t1 t2.
           CalculateASERT refTarget nPowTargetSpacing nTimeDiff1 nHeightDiff1 limit nHalfLife = Inr t1
         \<and> CalculateASERT refTarget nPowTargetSpacing nTimeDiff2 nHeightDiff2 limit nHalfLife = Inr t2
         \<and> (nHeightDiff1 = nHeightDiff2 \<and> nTimeDiff1 \<le> nTimeDiff2 \<longrightarrow> t1 \<le> t2)
         \<and> (0 \<le> nPowTargetSpacing \<and> nTimeDiff1 = nTimeDiff2 \<and> nHeightDiff1 \<le> nHeightDiff2
                \<longrightarrow> t2 \<le> t1)"
proof -
  have h: "nHalfLife \<noteq> 0"
    using assms(4) by simp
  obtain t1 where t1:
    "CalculateASERT refTarget nPowTargetSpacing nTimeDiff1 nHeightDiff1 limit nHalfLife = Inr t1"
    using CalculateASERT_exact [OF assms(1,2,3,5,6,7) h] by blast
  obtain t2 where t2:
    "CalculateASERT refTarget nPowTargetSpacing nTimeDiff2 nHeightDiff2 limit nHalfLife = Inr t2"
    using CalculateASERT_exact [OF assms(1,2,3,8,9,10) h] by blast
  have time: "t1 \<le> t2" if "nHeightDiff1 = nHeightDiff2 \<and> nTimeDiff1 \<le> nTimeDiff2"
  proof -
    from that
    have "nTimeDiff1 - nPowTargetSpacing * nHeightDiff1
            \<le> nTimeDiff2 - nPowTargetSpacing * nHeightDiff2"
      by simp
    from CalculateASERT_mono_schedule [OF assms(1-10) this] t1 t2 show ?thesis
      by simp
  qed
  have height: "t2 \<le> t1"
    if "0 \<le> nPowTargetSpacing \<and> nTimeDiff1 = nTimeDiff2 \<and> nHeightDiff1 \<le> nHeightDiff2"
  proof -
    from that have "nPowTargetSpacing * nHeightDiff1 \<le> nPowTargetSpacing * nHeightDiff2"
      by (intro mult_left_mono) simp_all
    with that
    have "nTimeDiff2 - nPowTargetSpacing * nHeightDiff2
            \<le> nTimeDiff1 - nPowTargetSpacing * nHeightDiff1"
      by simp
    from CalculateASERT_mono_schedule [OF assms(1-4) assms(8-10) assms(5-7) this] t1 t2
    show ?thesis
      by simp
  qed
  from t1 t2 time height show ?thesis
    by blast
qed

theorem CalculateASERT_monotone_witness:
  "CalculateASERT (2 ^ 200) 600 1200 2 (0xffff * 2 ^ 208) 172800 = Inr (2 ^ 200)
   \<and> CalculateASERT (2 ^ 200) 600 1800 2 (0xffff * 2 ^ 208) 172800 = Inr (65694 * 2 ^ 184)
   \<and> CalculateASERT (2 ^ 200) 600 1800 3 (0xffff * 2 ^ 208) 172800 = Inr (2 ^ 200)
   \<and> (2 ^ 200 :: arith_uint256) \<le> 65694 * 2 ^ 184"
proof -
  have "\<exists>t1 t2. CalculateASERT (2 ^ 200) 600 1200 2 (0xffff * 2 ^ 208) 172800 = Inr t1
          \<and> CalculateASERT (2 ^ 200) 600 1800 2 (0xffff * 2 ^ 208) 172800 = Inr t2
          \<and> (2 = (2::int) \<and> (1200::int) \<le> 1800 \<longrightarrow> t1 \<le> t2)
          \<and> ((0::int) \<le> 600 \<and> (1200::int) = 1800 \<and> (2::int) \<le> 2 \<longrightarrow> t2 \<le> t1)"
    by (rule CalculateASERT_monotone [OF example_preconditions]) (simp_all add: in_int64_def)
  then have time: "(2 ^ 200 :: arith_uint256) \<le> 65694 * 2 ^ 184"
    unfolding CalculateASERT_example_on_schedule CalculateASERT_example_late by auto
  have "\<exists>t1 t2. CalculateASERT (2 ^ 200) 600 1800 2 (0xffff * 2 ^ 208) 172800 = Inr t1
          \<and> CalculateASERT (2 ^ 200) 600 1800 3 (0xffff * 2 ^ 208) 172800 = Inr t2
          \<and> (2 = (3::int) \<and> (1800::int) \<le> 1800 \<longrightarrow> t1 \<le> t2)
          \<and> ((0::int) \<le> 600 \<and> (1800::int) = 1800 \<and> (2::int) \<le> 3 \<longrightarrow> t2 \<le> t1)"
    by (rule CalculateASERT_monotone [OF example_preconditions]) (simp_all add: in_int64_def)
  then have height: "(2 ^ 200 :: arith_uint256) \<le> 65694 * 2 ^ 184"
    unfolding CalculateASERT_example_late CalculateASERT_example_ahead by auto
  from time height show ?thesis
    by (simp only: CalculateASERT_example_on_schedule CalculateASERT_example_late
          CalculateASERT_example_ahead simp_thms)
qed

text \<open>
  Claim C3.  For inputs that pass the assertions, \<open>CalculateASERT\<close> returns a target that is
  above 0 and at most the ceiling.  With \<open>exact\<close> the scaled product in unbounded
  arithmetic, the result is 1 when \<open>exact\<close> is 0, the ceiling when \<open>exact\<close> is above the
  ceiling (which includes every left shift that would leave the 256 bits), and \<open>exact\<close>
  itself otherwise: no result comes from a wrapped value.
\<close>

theorem CalculateASERT_in_range:
  assumes "0 < refTarget" and "refTarget \<le> limit" and "drop_bit 224 limit = 0"
    and "0 < nHeightDiff" and "in_int64 (nPowTargetSpacing * nHeightDiff)"
    and "\<bar>nTimeDiff - nPowTargetSpacing * nHeightDiff\<bar> < 2 ^ 47" and "nHalfLife \<noteq> 0"
    and "exact = ASERT_unbounded (unat refTarget)
                   (ASERT_exponent nPowTargetSpacing nTimeDiff nHeightDiff nHalfLife)"
  shows "\<exists>t. CalculateASERT refTarget nPowTargetSpacing nTimeDiff nHeightDiff limit nHalfLife = Inr t
         \<and> 0 < t \<and> t \<le> limit
         \<and> (exact = 0 \<longrightarrow> t = 1)
         \<and> (unat limit < exact \<longrightarrow> t = limit)
         \<and> (0 < exact \<and> exact \<le> unat limit \<longrightarrow> unat t = exact)"
proof -
  obtain t where t:
    "CalculateASERT refTarget nPowTargetSpacing nTimeDiff nHeightDiff limit nHalfLife = Inr t"
    and ut: "unat t = max 1 (min (unat limit) exact)"
    using CalculateASERT_exact [OF assms(1-7)] unfolding ASERT_target_def assms(8) by blast
  have l: "0 < unat limit"
    using assms(1,2) by (simp add: word_less_nat_alt word_le_nat_alt)
  have "0 < unat t" and "unat t \<le> unat limit"
    using l by (simp_all add: ut)
  then have range: "0 < t" "t \<le> limit"
    by (simp_all add: word_less_nat_alt word_le_nat_alt)
  have zero: "t = 1" if "exact = 0"
  proof -
    have "unat t = unat (1 :: arith_uint256)"
      using that ut by simp
    then show ?thesis
      by (simp only: word_unat_eq_iff)
  qed
  have above: "t = limit" if "unat limit < exact"
  proof -
    have "unat t = unat limit"
      using that ut l by simp
    then show ?thesis
      by (simp only: word_unat_eq_iff)
  qed
  have between: "unat t = exact" if "0 < exact \<and> exact \<le> unat limit"
    using that ut by simp
  show ?thesis
    using t range zero above between by (intro exI [of _ t] conjI impI)
qed

theorem CalculateASERT_in_range_witness:
  "CalculateASERT (2 ^ 200) 600 1800 2 (0xffff * 2 ^ 208) 172800 = Inr (65694 * 2 ^ 184)
   \<and> (0 :: arith_uint256) < 65694 * 2 ^ 184
   \<and> (65694 * 2 ^ 184 :: arith_uint256) \<le> 0xffff * 2 ^ 208"
proof -
  have "\<exists>t. CalculateASERT (2 ^ 200) 600 1800 2 (0xffff * 2 ^ 208) 172800 = Inr t
          \<and> 0 < t \<and> t \<le> 0xffff * 2 ^ 208
          \<and> (ASERT_unbounded (unat (2 ^ 200 :: arith_uint256)) (ASERT_exponent 600 1800 2 172800) = 0
                \<longrightarrow> t = 1)
          \<and> (unat (0xffff * 2 ^ 208 :: arith_uint256)
                < ASERT_unbounded (unat (2 ^ 200 :: arith_uint256)) (ASERT_exponent 600 1800 2 172800)
                \<longrightarrow> t = 0xffff * 2 ^ 208)
          \<and> (0 < ASERT_unbounded (unat (2 ^ 200 :: arith_uint256)) (ASERT_exponent 600 1800 2 172800)
              \<and> ASERT_unbounded (unat (2 ^ 200 :: arith_uint256)) (ASERT_exponent 600 1800 2 172800)
                  \<le> unat (0xffff * 2 ^ 208 :: arith_uint256)
                \<longrightarrow> unat t = ASERT_unbounded (unat (2 ^ 200 :: arith_uint256))
                              (ASERT_exponent 600 1800 2 172800))"
    by (rule CalculateASERT_in_range [OF example_preconditions]) (simp_all add: in_int64_def)
  then show ?thesis
    unfolding CalculateASERT_example_late by auto
qed

text \<open>
  Claim C4.  When the time difference is exactly the ideal spacing times the height
  difference, \<open>CalculateASERT\<close> returns the reference target itself, hence a target within
  0.013 percent of it.
\<close>

theorem CalculateASERT_on_schedule:
  assumes "0 < refTarget" and "refTarget \<le> limit" and "drop_bit 224 limit = 0"
    and "0 < nHeightDiff" and "in_int64 (nPowTargetSpacing * nHeightDiff)"
    and "nHalfLife \<noteq> 0"
    and "nTimeDiff = nPowTargetSpacing * nHeightDiff"
  shows "CalculateASERT refTarget nPowTargetSpacing nTimeDiff nHeightDiff limit nHalfLife
           = Inr refTarget
         \<and> (\<forall>t. CalculateASERT refTarget nPowTargetSpacing nTimeDiff nHeightDiff limit nHalfLife
                  = Inr t
               \<longrightarrow> 100000 * \<bar>int (unat t) - int (unat refTarget)\<bar> \<le> 13 * int (unat refTarget))"
proof -
  have e: "ASERT_exponent nPowTargetSpacing nTimeDiff nHeightDiff nHalfLife = 0"
    by (simp add: ASERT_exponent_def assms(7) signed_divide_int_def)
  have "\<bar>nTimeDiff - nPowTargetSpacing * nHeightDiff\<bar> < 2 ^ 47"
    by (simp add: assms(7))
  from CalculateASERT_exact [OF assms(1-5) this assms(6)]
  obtain t where t:
    "CalculateASERT refTarget nPowTargetSpacing nTimeDiff nHeightDiff limit nHalfLife = Inr t"
    "unat t = ASERT_target (unat refTarget) 0 (unat limit)"
    unfolding e by blast
  have "0 < unat refTarget" "unat refTarget \<le> unat limit"
    using assms(1,2) by (simp_all add: word_less_nat_alt word_le_nat_alt)
  then have "ASERT_target (unat refTarget) 0 (unat limit) = unat refTarget"
    by (simp add: ASERT_target_scaled factor_nat_0 scale_pow2_def)
  with t have "CalculateASERT refTarget nPowTargetSpacing nTimeDiff nHeightDiff limit nHalfLife
                 = Inr refTarget"
    by (simp add: word_unat_eq_iff)
  then show ?thesis
    by simp
qed

theorem CalculateASERT_on_schedule_witness:
  "CalculateASERT (2 ^ 200) 600 1200 2 (0xffff * 2 ^ 208) 172800 = Inr (2 ^ 200)"
  by (rule CalculateASERT_on_schedule [OF example_preconditions, THEN conjunct1])
     (simp_all add: in_int64_def)

section \<open>The walks of the dispatcher\<close>

lemma height_diff_walk_takeWhile:
  "height_diff_walk c aux a d =
     d - int (length (filter (\<lambda>n. index_IsAuxpow n \<noteq> aux) (takeWhile (\<lambda>n. nHeight n > a) c)))"
  by (induction c arbitrary: d) auto

lemma linked_below: "linked (n # ns) \<Longrightarrow> m \<in> set ns \<Longrightarrow> nHeight m < nHeight n"
proof (induction ns arbitrary: n)
  case Nil
  then show ?case by simp
next
  case (Cons k ks)
  then show ?case by fastforce
qed

lemma linked_tail: "linked (n # ns) \<Longrightarrow> linked ns"
  by (cases ns) auto

lemma linked_suffix: "linked (pre @ c) \<Longrightarrow> linked c"
  by (induction pre) (auto dest: linked_tail)

lemma linked_takeWhile_filter:
  "linked c \<Longrightarrow> takeWhile (\<lambda>n. nHeight n > a) c = filter (\<lambda>n. nHeight n > a) c"
proof (induction c)
  case Nil
  then show ?case by simp
next
  case (Cons n ns)
  show ?case
  proof (cases "nHeight n > a")
    case True
    with Cons show ?thesis by (simp add: linked_tail)
  next
    case False
    have "\<forall>m \<in> set ns. \<not> nHeight m > a"
      using linked_below [OF Cons.prems] False by fastforce
    then have "filter (\<lambda>n. nHeight n > a) ns = []"
      by (simp add: filter_empty_conv)
    with False show ?thesis by simp
  qed
qed

lemma height_diff_walk_linked:
  assumes "linked c"
  shows "height_diff_walk c aux a d = d - int (foreign_above c aux a)"
proof -
  have "filter (\<lambda>n. index_IsAuxpow n \<noteq> aux) (filter (\<lambda>n. nHeight n > a) c)
          = filter (\<lambda>n. nHeight n > a \<and> index_IsAuxpow n \<noteq> aux) c"
    by (simp add: conj_commute)
  then show ?thesis
    by (simp add: height_diff_walk_takeWhile linked_takeWhile_filter [OF assms] foreign_above_def)
qed

lemma linked_above_length:
  "linked (n # ns) \<Longrightarrow>
     int (length (filter (\<lambda>n. nHeight n > a) (n # ns))) \<le> max 0 (nHeight n - a)"
proof (induction ns arbitrary: n)
  case Nil
  then show ?case by simp
next
  case (Cons m ms)
  from Cons.prems have h: "nHeight m = nHeight n - 1" and l: "linked (m # ms)"
    by simp_all
  have ih: "int (length (filter (\<lambda>n. nHeight n > a) (m # ms))) \<le> max 0 (nHeight m - a)"
    by (rule Cons.IH [OF l])
  show ?case
  proof (cases "nHeight n > a")
    case True
    then have "int (length (filter (\<lambda>n. nHeight n > a) (n # m # ms)))
                 = 1 + int (length (filter (\<lambda>n. nHeight n > a) (m # ms)))"
      by simp
    with ih h True show ?thesis by linarith
  next
    case False
    then have "int (length (filter (\<lambda>n. nHeight n > a) (n # m # ms)))
                 = int (length (filter (\<lambda>n. nHeight n > a) (m # ms)))"
      by simp
    with ih h False show ?thesis by linarith
  qed
qed

lemma foreign_above_le:
  "foreign_above c aux a \<le> length (filter (\<lambda>n. nHeight n > a) c)"
proof -
  have "filter (\<lambda>n. nHeight n > a \<and> index_IsAuxpow n \<noteq> aux) c
          = filter (\<lambda>n. index_IsAuxpow n \<noteq> aux) (filter (\<lambda>n. nHeight n > a) c)"
    by (simp add: conj_commute)
  then show ?thesis
    unfolding foreign_above_def by (simp only: length_filter_le)
qed

lemma foreign_above_matched_head:
  assumes "linked (r # rest)" and "index_IsAuxpow r = aux" and "nHeight r > a"
  shows "int (foreign_above (r # rest) aux a) \<le> nHeight r - a - 1"
proof (cases rest)
  case Nil
  with assms show ?thesis by (simp add: foreign_above_def)
next
  case (Cons m ms)
  have "foreign_above (r # rest) aux a = foreign_above rest aux a"
    using assms(2) by (simp add: foreign_above_def)
  also have "\<dots> \<le> length (filter (\<lambda>n. nHeight n > a) (m # ms))"
    unfolding Cons by (rule foreign_above_le)
  finally have "int (foreign_above (r # rest) aux a)
                  \<le> int (length (filter (\<lambda>n. nHeight n > a) (m # ms)))"
    by simp
  moreover have "int (length (filter (\<lambda>n. nHeight n > a) (m # ms))) \<le> max 0 (nHeight m - a)"
    using assms(1) Cons by (intro linked_above_length) simp
  moreover have "nHeight m = nHeight r - 1"
    using assms(1) Cons by simp
  ultimately show ?thesis using assms(3) by linarith
qed

lemma lane_walk_foreign_prefix:
  assumes "\<forall>n \<in> set pre. index_IsAuxpow n \<noteq> IsAuxpow pblock
             \<and> nHeight n > anchor_nHeight (asertAnchorParams params)"
  shows "lane_walk (pre @ c) pblock params = lane_walk c pblock params"
  using assms by (induction pre) simp_all

lemma lane_walk_at_anchor:
  assumes "nHeight n \<le> anchor_nHeight (asertAnchorParams params)"
  shows "lane_walk (n # rest) pblock params = Inr (anchor_bits pblock params)"
  using assms by (simp add: anchor_bits_def)

lemma lane_walk_matched:
  assumes "index_IsAuxpow r = IsAuxpow pblock"
    and "nHeight r > anchor_nHeight (asertAnchorParams params)"
  shows "lane_walk (r # rest) pblock params = GetNextASERTWorkRequired (r # rest) pblock params"
  using assms by simp

lemma GetNextWorkRequired_walks:
  assumes "\<not> fPowNoRetargeting params"
    and "anchor_nHeight (asertAnchorParams params) > 0"
    and "nHeight p > anchor_nHeight (asertAnchorParams params)"
    and "fPowAllowMinDifficultyBlocks params \<longrightarrow>
           in_int64 (2 * nPowTargetSpacingAuxPow params)
           \<and> in_int64 (index_GetBlockTime p + 2 * nPowTargetSpacingAuxPow params)
           \<and> GetBlockTime pblock \<le> index_GetBlockTime p + 2 * nPowTargetSpacingAuxPow params"
  shows "GetNextWorkRequired (p # c) pblock params = lane_walk (p # c) pblock params"
  using assms
  by (cases "fPowAllowMinDifficultyBlocks params") (simp_all del: lane_walk.simps)

lemma CalculateASERT_height_assert:
  "nHeightDiff > 0 \<Longrightarrow>
     CalculateASERT refTarget spacing nTimeDiff nHeightDiff limit halfLife \<noteq> Inl AssertHeightDiff"
  by (simp add: CalculateASERT_def Let_def)

lemma GetNextASERTWorkRequired_height_assert:
  assumes "ASERT_nHeightDiff (r # rest) pblock params > 0"
  shows "GetNextASERTWorkRequired (r # rest) pblock params \<noteq> Inl AssertHeightDiff"
proof -
  have "CalculateASERT (fst (SetCompact (anchor_bits pblock params)))
          (anchor_spacing pblock params) (ASERT_nTimeDiff r params)
          (ASERT_nHeightDiff (r # rest) pblock params) (powLimit params)
          (nASERTHalfLife params) \<noteq> Inl AssertHeightDiff"
    by (rule CalculateASERT_height_assert [OF assms])
  then show ?thesis
    by (auto split: sum.splits)
qed

lemma ASERT_nHeightDiff_linked:
  assumes "linked (r # rest)"
  shows "ASERT_nHeightDiff (r # rest) pblock params =
           nHeight r - anchor_nHeight (asertAnchorParams params)
           - int (foreign_above (r # rest) (IsAuxpow pblock)
                    (anchor_nHeight (asertAnchorParams params)))"
  unfolding ASERT_nHeightDiff_def
  by (simp only: height_diff_walk_linked [OF assms] list.sel)

lemma ASERT_nHeightDiff_positive:
  assumes "linked (r # rest)" and "index_IsAuxpow r = IsAuxpow pblock"
    and "nHeight r > anchor_nHeight (asertAnchorParams params)"
  shows "1 \<le> ASERT_nHeightDiff (r # rest) pblock params"
  using foreign_above_matched_head [OF assms] ASERT_nHeightDiff_linked [OF assms(1)]
  by simp

lemma lane_walk_height_assert:
  "linked c \<Longrightarrow> lane_walk c pblock params \<noteq> Inl AssertHeightDiff"
proof (induction c)
  case Nil
  then show ?case by simp
next
  case (Cons n ns)
  have tl: "lane_walk ns pblock params \<noteq> Inl AssertHeightDiff"
    using Cons by (simp add: linked_tail)
  show ?case
  proof (cases "index_IsAuxpow n = IsAuxpow pblock
                  \<and> nHeight n > anchor_nHeight (asertAnchorParams params)")
    case True
    then have "0 < ASERT_nHeightDiff (n # ns) pblock params"
      using ASERT_nHeightDiff_positive [OF Cons.prems, of pblock params] by simp
    then have "GetNextASERTWorkRequired (n # ns) pblock params \<noteq> Inl AssertHeightDiff"
      by (rule GetNextASERTWorkRequired_height_assert)
    with True show ?thesis by (simp add: lane_walk_matched del: lane_walk.simps GetNextASERTWorkRequired.simps)
  next
    case False
    with tl show ?thesis by auto
  qed
qed

lemma ASERT_factor_227: "ASERT_factor 227 = 65694"
  by (simp add: ASERT_factor_def)

lemma SetCompact_1c0fffff: "SetCompact 0x1c0fffff = (0xfffff * 2 ^ 200, False, False)"
  by (simp add: SetCompact_def Let_def)

text \<open>
  Claim C1, as amended.  With no-retargeting off and a positive anchor height: when the parent
  is at or before the anchor height and the candidate is on the primary lane, the dispatcher
  returns \<open>nBitsLegacy\<close>; when the parent is above the anchor height, the minimum-difficulty
  rule does not fire and the lane-matching walk, after nodes of the other lane above the
  anchor height, reaches a node at or before the anchor height, the dispatcher returns
  \<open>nBitsAuxPow\<close> for an auxiliary candidate and \<open>nBitsLegacy\<close> otherwise.
\<close>

theorem GetNextWorkRequired_pre_anchor:
  assumes "\<not> fPowNoRetargeting params"
    and "anchor_nHeight (asertAnchorParams params) > 0"
  shows "(nHeight pindexLast \<le> anchor_nHeight (asertAnchorParams params)
            \<and> \<not> IsAuxpow pblock
          \<longrightarrow> GetNextWorkRequired (pindexLast # pprev) pblock params
                = Inr (nBitsLegacy (asertAnchorParams params)))
       \<and> ((fPowAllowMinDifficultyBlocks params \<longrightarrow>
              in_int64 (2 * nPowTargetSpacingAuxPow params)
              \<and> in_int64 (index_GetBlockTime pindexLast + 2 * nPowTargetSpacingAuxPow params)
              \<and> GetBlockTime pblock
                   \<le> index_GetBlockTime pindexLast + 2 * nPowTargetSpacingAuxPow params)
           \<and> (\<forall>n \<in> set (pindexLast # pre). index_IsAuxpow n \<noteq> IsAuxpow pblock
                  \<and> nHeight n > anchor_nHeight (asertAnchorParams params))
           \<and> nHeight low \<le> anchor_nHeight (asertAnchorParams params)
          \<longrightarrow> GetNextWorkRequired (pindexLast # pre @ low # rest) pblock params
                = Inr (if IsAuxpow pblock then nBitsAuxPow (asertAnchorParams params)
                       else nBitsLegacy (asertAnchorParams params)))"
proof (intro conjI impI)
  assume "nHeight pindexLast \<le> anchor_nHeight (asertAnchorParams params) \<and> \<not> IsAuxpow pblock"
  then show "GetNextWorkRequired (pindexLast # pprev) pblock params
               = Inr (nBitsLegacy (asertAnchorParams params))"
    using assms by simp
next
  assume h: "(fPowAllowMinDifficultyBlocks params \<longrightarrow>
              in_int64 (2 * nPowTargetSpacingAuxPow params)
              \<and> in_int64 (index_GetBlockTime pindexLast + 2 * nPowTargetSpacingAuxPow params)
              \<and> GetBlockTime pblock
                   \<le> index_GetBlockTime pindexLast + 2 * nPowTargetSpacingAuxPow params)
           \<and> (\<forall>n \<in> set (pindexLast # pre). index_IsAuxpow n \<noteq> IsAuxpow pblock
                  \<and> nHeight n > anchor_nHeight (asertAnchorParams params))
           \<and> nHeight low \<le> anchor_nHeight (asertAnchorParams params)"
  then have above: "nHeight pindexLast > anchor_nHeight (asertAnchorParams params)"
    by simp
  have "GetNextWorkRequired (pindexLast # pre @ low # rest) pblock params
          = lane_walk (pindexLast # pre @ low # rest) pblock params"
    using assms above h by (intro GetNextWorkRequired_walks) simp_all
  also have "\<dots> = lane_walk ((pindexLast # pre) @ low # rest) pblock params"
    by simp
  also have "\<dots> = lane_walk (low # rest) pblock params"
    using h by (intro lane_walk_foreign_prefix) simp
  also have "\<dots> = Inr (anchor_bits pblock params)"
    using h by (intro lane_walk_at_anchor) simp
  finally show "GetNextWorkRequired (pindexLast # pre @ low # rest) pblock params
                  = Inr (if IsAuxpow pblock then nBitsAuxPow (asertAnchorParams params)
                         else nBitsLegacy (asertAnchorParams params))"
    by (simp add: anchor_bits_def)
qed

theorem GetNextWorkRequired_pre_anchor_witness:
  "GetNextWorkRequired [anchor_node] legacy_candidate example_params = Inr 0x1c00ffff
   \<and> GetNextWorkRequired [above_anchor_node, anchor_node] aux_candidate example_params
       = Inr 0x1c0fffff"
  using GetNextWorkRequired_pre_anchor
          [where params = example_params and pindexLast = anchor_node
             and pblock = legacy_candidate and pprev = "[]"]
        GetNextWorkRequired_pre_anchor
          [where params = example_params and pindexLast = above_anchor_node
             and pblock = aux_candidate and pre = "[]" and low = anchor_node and rest = "[]"]
  by (simp add: example_params_def example_anchor_def anchor_node_def above_anchor_node_def
        legacy_candidate_def aux_candidate_def)

text \<open>
  The claim as first stated fails on the height fast-path of lines 177-179, which returns
  \<open>nBitsLegacy\<close> for an auxiliary candidate too, and under no-retargeting, where the
  parent's own packed target is returned.
\<close>

theorem GetNextWorkRequired_pre_anchor_counterexample:
  "nHeight anchor_node \<le> anchor_nHeight (asertAnchorParams example_params)
   \<and> IsAuxpow aux_candidate
   \<and> GetNextWorkRequired [anchor_node] aux_candidate example_params
       = Inr (nBitsLegacy (asertAnchorParams example_params))
   \<and> GetNextWorkRequired [anchor_node] aux_candidate example_params
       \<noteq> Inr (nBitsAuxPow (asertAnchorParams example_params))
   \<and> GetNextWorkRequired [anchor_node] legacy_candidate
         (example_params\<lparr>fPowNoRetargeting := True\<rparr>)
       = Inr (nBits anchor_node)
   \<and> GetNextWorkRequired [anchor_node] legacy_candidate
         (example_params\<lparr>fPowNoRetargeting := True\<rparr>)
       \<noteq> Inr (nBitsLegacy (asertAnchorParams example_params))"
  by (simp add: example_params_def example_anchor_def anchor_node_def
        legacy_candidate_def aux_candidate_def)

text \<open>
  Claim C5.  When the dispatcher reaches the ASERT path (no-retargeting off, the
  minimum-difficulty rule silent, every node walked over on the other lane and above the
  anchor height, the reference node on the candidate's lane, above the anchor height and with
  a parent), its result is the packed form of \<open>CalculateASERT\<close> called with the height
  difference: reference height minus anchor height minus the number of nodes of the other
  lane among the nodes above the anchor height from the reference node downwards, and with
  the time difference: the reference node's block time minus the anchor record's block time.
\<close>

theorem GetNextWorkRequired_ASERT_arguments:
  assumes "\<not> fPowNoRetargeting params"
    and "anchor_nHeight (asertAnchorParams params) > 0"
    and "fPowAllowMinDifficultyBlocks params \<longrightarrow>
           in_int64 (2 * nPowTargetSpacingAuxPow params)
           \<and> in_int64 (index_GetBlockTime (hd (pre @ [r])) + 2 * nPowTargetSpacingAuxPow params)
           \<and> GetBlockTime pblock
                \<le> index_GetBlockTime (hd (pre @ [r])) + 2 * nPowTargetSpacingAuxPow params"
    and "\<forall>n \<in> set pre. index_IsAuxpow n \<noteq> IsAuxpow pblock
           \<and> nHeight n > anchor_nHeight (asertAnchorParams params)"
    and "index_IsAuxpow r = IsAuxpow pblock"
    and "nHeight r > anchor_nHeight (asertAnchorParams params)"
    and "rest \<noteq> []"
    and "linked (r # rest)"
    and "in_int64 (index_GetBlockTime r - nBlockTime (asertAnchorParams params))"
  shows "GetNextWorkRequired (pre @ r # rest) pblock params =
    (case CalculateASERT (fst (SetCompact (anchor_bits pblock params)))
            (anchor_spacing pblock params)
            (index_GetBlockTime r - nBlockTime (asertAnchorParams params))
            (nHeight r - anchor_nHeight (asertAnchorParams params)
               - int (foreign_above (r # rest) (IsAuxpow pblock)
                        (anchor_nHeight (asertAnchorParams params))))
            (powLimit params)
            (nASERTHalfLife params) of
       Inl e \<Rightarrow> Inl e
     | Inr nextTarget \<Rightarrow> Inr (GetCompact nextTarget))"
proof -
  define p where p: "p = hd (pre @ [r])"
  define c where "c = tl (pre @ r # rest)"
  have pc: "pre @ r # rest = p # c"
    by (cases pre) (simp_all add: p c_def)
  have "p \<in> set pre \<or> p = r"
    using p by (cases pre) auto
  then have above: "nHeight p > anchor_nHeight (asertAnchorParams params)"
    using assms(4,6) by auto
  have "GetNextWorkRequired (pre @ r # rest) pblock params = lane_walk (p # c) pblock params"
    unfolding pc using assms(1,2) above assms(3) [folded p]
    by (rule GetNextWorkRequired_walks)
  also have "\<dots> = lane_walk (r # rest) pblock params"
    unfolding pc [symmetric] using assms(4) by (rule lane_walk_foreign_prefix)
  also have "\<dots> = GetNextASERTWorkRequired (r # rest) pblock params"
    using assms(5,6) by (rule lane_walk_matched)
  finally show ?thesis
    using assms(2,6,7,9)
    by (simp add: ASERT_nHeightDiff_linked [OF assms(8)] ASERT_nTimeDiff_def)
qed

theorem GetNextWorkRequired_ASERT_arguments_witness:
  "GetNextWorkRequired example_chain aux_candidate example_params = Inr 0x1c1009de"
proof -
  have "foreign_above (tl example_chain) True 100 = 1"
    by (simp add: foreign_above_def example_chain_def)
  then show ?thesis
    using GetNextWorkRequired_ASERT_arguments
            [of example_params "[hd example_chain]" "hd (tl example_chain)" aux_candidate
                "tl (tl example_chain)"]
    by (simp add: example_chain_def aux_candidate_def example_params_def example_anchor_def
          in_int64_def anchor_bits_def anchor_spacing_def SetCompact_1c0fffff
          ASERT_nTimeDiff_def ASERT_nHeightDiff_def
          CalculateASERT_def ASERT_exponent_def ASERT_apply_shifts_def Let_def
          ASERT_factor_227 signed_divide_int_def GetCompact_def bits_def)
qed

text \<open>
  Claim C10.  On a well-formed chain the height difference computed for any node of the
  candidate's lane above the anchor height is at least 1, and the dispatcher never fails the
  height-difference assertion of \<open>CalculateASERT\<close>.
\<close>

theorem ASERT_height_diff_assertion_holds:
  assumes "linked c"
  shows "GetNextWorkRequired c pblock params \<noteq> Inl AssertHeightDiff
         \<and> (\<forall>pre r rest.
               c = pre @ r # rest \<and> index_IsAuxpow r = IsAuxpow pblock
               \<and> nHeight r > anchor_nHeight (asertAnchorParams params)
               \<longrightarrow> 1 \<le> ASERT_nHeightDiff (r # rest) pblock params)"
proof
  have walk: "lane_walk c pblock params \<noteq> Inl AssertHeightDiff"
    using assms by (rule lane_walk_height_assert)
  show "GetNextWorkRequired c pblock params \<noteq> Inl AssertHeightDiff"
  proof (cases c)
    case Nil
    then show ?thesis by simp
  next
    case (Cons p ps)
    with walk show ?thesis
      by (simp del: lane_walk.simps)
  qed
  show "\<forall>pre r rest.
          c = pre @ r # rest \<and> index_IsAuxpow r = IsAuxpow pblock
          \<and> nHeight r > anchor_nHeight (asertAnchorParams params)
          \<longrightarrow> 1 \<le> ASERT_nHeightDiff (r # rest) pblock params"
  proof (intro allI impI, elim conjE)
    fix pre r rest
    assume c: "c = pre @ r # rest" and lane: "index_IsAuxpow r = IsAuxpow pblock"
      and above: "nHeight r > anchor_nHeight (asertAnchorParams params)"
    have "linked (r # rest)"
      using assms unfolding c by (rule linked_suffix)
    then show "1 \<le> ASERT_nHeightDiff (r # rest) pblock params"
      using lane above by (rule ASERT_nHeightDiff_positive)
  qed
qed

theorem ASERT_height_diff_assertion_holds_witness:
  "linked example_chain
   \<and> GetNextWorkRequired example_chain aux_candidate example_params \<noteq> Inl AssertHeightDiff
   \<and> ASERT_nHeightDiff (tl example_chain) aux_candidate example_params = 1"
proof -
  have l: "linked example_chain"
    by (simp add: example_chain_def)
  have "example_chain = [hd example_chain] @ hd (tl example_chain) # tl (tl example_chain)"
    by (simp add: example_chain_def)
  moreover have "ASERT_nHeightDiff (tl example_chain) aux_candidate example_params \<le> 1"
    by (simp add: ASERT_nHeightDiff_def example_chain_def aux_candidate_def example_params_def
          example_anchor_def)
  ultimately show ?thesis
    using ASERT_height_diff_assertion_holds [OF l, of aux_candidate example_params] l
    by (simp add: example_chain_def aux_candidate_def example_params_def example_anchor_def
          ASERT_nHeightDiff_def)
qed

section \<open>The legacy retargeter\<close>

lemma unat_of_int64:
  assumes "0 \<le> n" and "n < 2 ^ 63"
  shows "unat (of_int64 n) = nat n"
proof -
  have "n < 2 ^ 64"
    using assms(2) by simp
  then have "unat (word_of_int n :: uint64) = nat n"
    using assms(1) by (simp add: unsigned_of_int take_bit_int_eq_self)
  moreover have "nat n < 2 ^ 256"
    using assms by (simp add: nat_less_iff) 
  ultimately show ?thesis
    by (simp add: of_int64_def unsigned_ucast_eq take_bit_nat_eq_self)
qed

lemma unat_mul_div_clamp:
  fixes target limit :: arith_uint256
  assumes "0 \<le> n" and "n < 2 ^ 63" and "0 < d" and "d < 2 ^ 63"
  shows "unat (let x = target * of_int64 n div of_int64 d in if x > limit then limit else x)
           = min (unat limit) ((unat target * nat n) mod 2 ^ 256 div nat d)"
proof -
  have "unat (target * of_int64 n div of_int64 d)
          = (unat target * nat n) mod 2 ^ 256 div nat d"
    using assms by (simp add: unat_div unat_word_ariths unat_of_int64)
  then show ?thesis
    by (auto simp: Let_def word_less_nat_alt)
qed

lemma sdiv_4_eq_div: "0 \<le> (t::int) \<Longrightarrow> t sdiv 4 = t div 4"
  by (simp add: signed_divide_int_def sgn_if)

lemma clamp_timespan_bounds:
  assumes "0 < timespan" and "in_int64 (timespan * 4)"
  shows "0 \<le> clamp_timespan timespan actual" and "clamp_timespan timespan actual < 2 ^ 63"
    and "timespan < 2 ^ 63"
proof -
  have "0 \<le> timespan div 4"
    using assms(1) by simp
  then show "0 \<le> clamp_timespan timespan actual"
    using assms(1) by (simp add: clamp_timespan_def)
  have "timespan * 4 < 2 ^ 63"
    using assms(2) by (simp add: in_int64_def)
  then show "clamp_timespan timespan actual < 2 ^ 63" and "timespan < 2 ^ 63"
    using assms(1) by (simp_all add: clamp_timespan_def)
qed

lemma sequential_clamp:
  assumes "0 < timespan"
  shows "(let a = (if actual < timespan sdiv 4 then timespan sdiv 4 else actual)
          in if a > timespan * 4 then timespan * 4 else a) = clamp_timespan timespan actual"
proof -
  have "timespan div 4 \<le> timespan * 4"
    using assms by linarith
  then show ?thesis
    using assms by (auto simp: clamp_timespan_def sdiv_4_eq_div Let_def min_def max_def)
qed


text \<open>
  Claim C8.  With a positive ideal timespan (and no signed overflow in the two 64-bit
  expressions), \<open>CalculateNextWorkRequired\<close> returns the parent's packed target when
  no-retargeting is on, and otherwise the packed encoding of \<open>legacy_retarget\<close>: the actual
  timespan, parent time minus window start, clamped to a quarter and four times the ideal
  timespan; the parent's decoded target multiplied by it first and divided by the ideal
  timespan afterwards; the quotient limited by the ceiling.  When the product fits 256 bits
  this is the quotient of the exact product.
\<close>

theorem CalculateNextWorkRequired_steps:
  assumes "0 < nPowTargetTimespan params"
    and "in_int64 (nPowTargetTimespan params * 4)"
    and "in_int64 (index_GetBlockTime pindexLast - nFirstBlockTime)"
  shows "CalculateNextWorkRequired pindexLast nFirstBlockTime params =
           Inr (if fPowNoRetargeting params then nBits pindexLast
                else GetCompact (word_of_nat
                       (legacy_retarget (unat (fst (SetCompact (nBits pindexLast))))
                          (index_GetBlockTime pindexLast - nFirstBlockTime)
                          (nPowTargetTimespan params) (unat (powLimit params)))))
         \<and> (unat (fst (SetCompact (nBits pindexLast))) * nat (nPowTargetTimespan params * 4) < 2 ^ 256
              \<longrightarrow> legacy_retarget (unat (fst (SetCompact (nBits pindexLast))))
                     (index_GetBlockTime pindexLast - nFirstBlockTime)
                     (nPowTargetTimespan params) (unat (powLimit params))
                  = min (unat (powLimit params))
                      (unat (fst (SetCompact (nBits pindexLast)))
                         * nat (clamp_timespan (nPowTargetTimespan params)
                                  (index_GetBlockTime pindexLast - nFirstBlockTime))
                       div nat (nPowTargetTimespan params)))"
proof
  define T where "T = nPowTargetTimespan params"
  define actual where "actual = index_GetBlockTime pindexLast - nFirstBlockTime"
  define target where "target = fst (SetCompact (nBits pindexLast))"
  note b = clamp_timespan_bounds [OF assms(1,2), folded T_def]
  have T: "0 < T" "in_int64 (T * 4)" "in_int64 actual"
    using assms by (simp_all add: T_def actual_def)
  have nz: "of_int64 T \<noteq> 0"
  proof -
    have "unat (of_int64 T) = nat T"
      using T(1) b(3) by (intro unat_of_int64) simp_all
    then have "0 < unat (of_int64 T)"
      using T(1) by simp
    then show ?thesis
      by (simp add: unat_gt_0)
  qed
  let ?x = "let x = target * of_int64 (clamp_timespan T actual) div of_int64 T
            in if x > powLimit params then powLimit params else x"
  have u: "unat ?x = legacy_retarget (unat target) actual T (unat (powLimit params))"
    unfolding legacy_retarget_def
    using b(1) [of actual] b(2) [of actual] T(1) b(3) by (rule unat_mul_div_clamp)
  have "?x = word_of_nat (unat ?x)"
    by simp
  then have x: "?x = word_of_nat (legacy_retarget (unat target) actual T (unat (powLimit params)))"
    by (simp only: u)
  have "CalculateNextWorkRequired pindexLast nFirstBlockTime params =
          Inr (if fPowNoRetargeting params then nBits pindexLast else GetCompact ?x)"
    unfolding CalculateNextWorkRequired_def T_def [symmetric] actual_def [symmetric]
      target_def [symmetric]
    using T nz sequential_clamp [OF T(1), of actual]
    by (simp add: Let_def)
  then have "CalculateNextWorkRequired pindexLast nFirstBlockTime params =
          Inr (if fPowNoRetargeting params then nBits pindexLast
               else GetCompact (word_of_nat
                      (legacy_retarget (unat target) actual T (unat (powLimit params)))))"
    by (simp only: x)
  then show "CalculateNextWorkRequired pindexLast nFirstBlockTime params =
           Inr (if fPowNoRetargeting params then nBits pindexLast
                else GetCompact (word_of_nat
                       (legacy_retarget (unat (fst (SetCompact (nBits pindexLast))))
                          (index_GetBlockTime pindexLast - nFirstBlockTime)
                          (nPowTargetTimespan params) (unat (powLimit params)))))"
    unfolding T_def actual_def target_def .
next
  define T where "T = nPowTargetTimespan params"
  define actual where "actual = index_GetBlockTime pindexLast - nFirstBlockTime"
  define target where "target = unat (fst (SetCompact (nBits pindexLast)))"
  have T: "0 < T"
    using assms by (simp add: T_def)
  have "legacy_retarget target actual T (unat (powLimit params))
          = min (unat (powLimit params)) (target * nat (clamp_timespan T actual) div nat T)"
    if "target * nat (T * 4) < 2 ^ 256"
  proof -
    have "clamp_timespan T actual \<le> T * 4"
      by (simp add: clamp_timespan_def)
    then have "target * nat (clamp_timespan T actual) \<le> target * nat (T * 4)"
      by (intro mult_le_mono2 nat_mono)
    with that have "target * nat (clamp_timespan T actual) < 2 ^ 256"
      by linarith
    then show ?thesis
      by (simp add: legacy_retarget_def)
  qed
  then show "unat (fst (SetCompact (nBits pindexLast))) * nat (nPowTargetTimespan params * 4) < 2 ^ 256
              \<longrightarrow> legacy_retarget (unat (fst (SetCompact (nBits pindexLast))))
                     (index_GetBlockTime pindexLast - nFirstBlockTime)
                     (nPowTargetTimespan params) (unat (powLimit params))
                  = min (unat (powLimit params))
                      (unat (fst (SetCompact (nBits pindexLast)))
                         * nat (clamp_timespan (nPowTargetTimespan params)
                                  (index_GetBlockTime pindexLast - nFirstBlockTime))
                       div nat (nPowTargetTimespan params))"
    unfolding T_def actual_def target_def by blast
qed

theorem CalculateNextWorkRequired_steps_witness:
  "CalculateNextWorkRequired retarget_node 1000000 example_params = Inr 0x1c01fffe
   \<and> CalculateNextWorkRequired retarget_node 1000000 (example_params\<lparr>fPowNoRetargeting := True\<rparr>)
       = Inr 0x1c00ffff"
  using CalculateNextWorkRequired_steps [of example_params retarget_node 1000000, THEN conjunct1]
    CalculateNextWorkRequired_steps
      [of "example_params\<lparr>fPowNoRetargeting := True\<rparr>" retarget_node 1000000, THEN conjunct1]
  by (simp add: example_params_def retarget_node_def in_int64_def legacy_retarget_def
        clamp_timespan_def SetCompact_def GetCompact_def bits_def Let_def)

section \<open>The packed round trip\<close>


































section \<open>The transition validator at a retarget boundary\<close>







end
